theory Spec2Isabelle
  imports Complex_Main "HOL-Library.Word"
begin

section \<open>JavaScript values used by the two scripts\<close>

text \<open>
  A JavaScript string is a sequence of UTF-16 code units. String literals of the
  source that are plain ASCII are written with \<open>lit\<close>; the accented letters of the
  Spanish texts are given by their code unit.
\<close>

type_synonym jsstring = "16 word list"

definition lit :: "string \<Rightarrow> jsstring" where
  "lit s = map of_char s"

text \<open>
  \<open>String.prototype.trim\<close> removes the ECMAScript WhiteSpace and LineTerminator
  code points from both ends.
\<close>

definition is_whitespace :: "16 word \<Rightarrow> bool" where
  "is_whitespace c \<longleftrightarrow>
     c \<in> set [0x0009, 0x000A, 0x000B, 0x000C, 0x000D, 0x0020, 0x00A0, 0x1680,
                0x2000, 0x2001, 0x2002, 0x2003, 0x2004, 0x2005, 0x2006, 0x2007,
                0x2008, 0x2009, 0x200A, 0x2028, 0x2029, 0x202F, 0x205F, 0x3000,
                0xFEFF]"

definition trim :: "jsstring \<Rightarrow> jsstring" where
  "trim s = rev (dropWhile is_whitespace (rev (dropWhile is_whitespace s)))"

definition startsWith :: "jsstring \<Rightarrow> jsstring \<Rightarrow> bool" where
  "startsWith s p \<longleftrightarrow> take (length p) s = p"

text \<open>\<open>Array.prototype.join\<close> on an array of strings.\<close>

fun join :: "jsstring \<Rightarrow> jsstring list \<Rightarrow> jsstring" where
  "join sep [] = []"
| "join sep [x] = x"
| "join sep (x # y # ys) = x @ sep @ join sep (y # ys)"

text \<open>The decimal digits of a non-negative integer, as template literals print it.\<close>

definition digit :: "nat \<Rightarrow> 16 word" where
  "digit d = of_nat (48 + d)"

fun decimal :: "nat \<Rightarrow> jsstring" where
  "decimal n = (if n < 10 then [digit n] else decimal (n div 10) @ [digit (n mod 10)])"

declare decimal.simps [simp del]

text \<open>
  The values a model response's \<open>content\<close> can take: missing, null, a string, or an
  object (LangChain uses an array of content parts for non-text answers).
\<close>

datatype js_value = JUndefined | JNull | JString jsstring | JObject

fun truthy :: "js_value \<Rightarrow> bool" where
  "truthy JUndefined = False"
| "truthy JNull = False"
| "truthy (JString s) = (s \<noteq> [])"
| "truthy JObject = True"

fun is_string :: "js_value \<Rightarrow> bool" where
  "is_string (JString s) = True"
| "is_string v = False"

text \<open>
  Exceptions: whatever a collaborator (Telegram, the vector store, the model, HTTP,
  PostgreSQL) throws, and the one error the chatbot raises itself.
\<close>

datatype js_error = Thrown string | ModelResponseEmpty

section \<open>The chatbot (src/chatbot.js)\<close>

record document =
  pageContent :: jsstring

record message =
  chat_id :: int
  first_name :: "jsstring option"
  msg_text :: "jsstring option"

text \<open>
  The file exists in a Spanish and an English edition that differ only in their
  texts. \<open>prompt_head\<close>, \<open>prompt_mid\<close> and \<open>prompt_tail\<close> are the three constant
  pieces of the prompt's template literal, around \<open>${context}\<close> and \<open>${text}\<close>.
\<close>

record texts =
  greeting :: jsstring
  waiting :: jsstring
  no_information :: jsstring
  apology :: jsstring
  prompt_head :: jsstring
  prompt_mid :: jsstring
  prompt_tail :: jsstring

definition newline :: jsstring where
  "newline = [0x000A]"

definition instruction_es :: jsstring where
  "instruction_es =
     lit ''Responde la siguiente pregunta usando S'' @ [0x00D3] @ lit ''LO la informaci'' @
     [0x00F3] @ lit ''n proporcionada.''"

definition chatbot_es :: texts where
  "chatbot_es = \<lparr>
     greeting = [0x00A1] @ lit ''Hola! Estoy listo para responder tus preguntas sobre el contenido del blog. '' @
       [0x00BF] @ lit ''Qu'' @ [0x00E9] @ lit '' te gustar'' @ [0x00ED] @ lit ''a saber?'',
     waiting = lit ''Procesando tu pregunta, dame un momento...'',
     no_information = lit ''No encontr'' @ [0x00E9] @ lit '' informaci'' @ [0x00F3] @
       lit ''n relevante para tu pregunta. '' @ [0x00BF] @ lit ''Puedes reformularla?'',
     apology = lit ''Lo siento, ocurri'' @ [0x00F3] @ lit '' un error al procesar tu pregunta. Por favor, int'' @
       [0x00E9] @ lit ''ntalo de nuevo m'' @ [0x00E1] @ lit ''s tarde.'',
     prompt_head = instruction_es @ newline @ newline,
     prompt_mid = newline @ newline @ lit ''Pregunta: '',
     prompt_tail = newline @ lit ''Respuesta en espa'' @ [0x00F1] @ lit ''ol:'' \<rparr>"

definition instruction_en :: jsstring where
  "instruction_en = lit ''Answer the following question using ONLY the information provided.''"

definition indent_en :: jsstring where
  "indent_en = replicate 20 0x0020"

definition chatbot_en :: texts where
  "chatbot_en = \<lparr>
     greeting = lit ''Hello! I'' @ [0x0027] @ lit ''m ready to answer your questions about the blog content. What would you like to know?'',
     waiting = lit ''Processing your question, give me a moment...'',
     no_information = lit ''I couldn'' @ [0x0027] @ lit ''t find relevant information for your question. Can you rephrase it?'',
     apology = lit ''Sorry, an error occurred while processing your question. Please try again later.'',
     prompt_head = instruction_en @ newline @ newline @ indent_en,
     prompt_mid = newline @ newline @ indent_en @ lit ''Question: '',
     prompt_tail = newline @ indent_en @ lit ''Answer:'' \<rparr>"

subsection \<open>Prompt construction (handler step 3b and 3c)\<close>

text \<open>
  \<^verbatim>\<open>docs.map((d, i) => `(${i + 1}) ${d.pageContent}`).join("\n")\<close>
\<close>

definition tagged :: "nat \<Rightarrow> document \<Rightarrow> jsstring" where
  "tagged i d = lit ''('' @ decimal (i + 1) @ lit '') '' @ pageContent d"

definition prompt_context :: "document list \<Rightarrow> jsstring" where
  "prompt_context docs = join newline (map (\<lambda>(i, d). tagged i d) (enumerate 0 docs))"

definition prompt :: "texts \<Rightarrow> jsstring \<Rightarrow> document list \<Rightarrow> jsstring" where
  "prompt L text docs =
     prompt_head L @ prompt_context docs @ prompt_mid L @ text @ prompt_tail L"

subsection \<open>The collaborators and the message handler\<close>

text \<open>
  The Telegram client, the vector store and the language model are external. Each
  call takes the state of the outside world and returns either the exception it
  throws or its result, with the new state of the world.
\<close>

record 'w collaborators =
  sendMessage :: "int \<Rightarrow> js_value \<Rightarrow> 'w \<Rightarrow> (js_error + unit) \<times> 'w"
  similaritySearch :: "jsstring \<Rightarrow> nat \<Rightarrow> 'w \<Rightarrow> (js_error + document list) \<times> 'w"
  invoke :: "jsstring \<Rightarrow> 'w \<Rightarrow> (js_error + js_value) \<times> 'w"

text \<open>
  What the handler does that is visible outside: the calls it makes, in order, and
  the error it logs in its \<open>catch\<close> block; and what the process around it does:
  the rejection its listener logs, the pool it ends and its exit. Informational logging
  has no influence on control flow and is left out.
\<close>

datatype chat_event =
    SendMessage int js_value
  | SimilaritySearch jsstring nat
  | Invoke jsstring
  | ErrorLogged js_error
  | UnhandledRejectionLogged js_error
  | PoolEnded
  | ProcessExited nat

text \<open>The promise an \<open>async\<close> function returns is fulfilled or rejected.\<close>

datatype settled = Fulfilled | Rejected js_error

fun settle :: "js_error + unit \<Rightarrow> settled" where
  "settle (Inl e) = Rejected e"
| "settle (Inr u) = Fulfilled"

text \<open>
  \<^verbatim>\<open>!answer || typeof answer !== "string" || answer.trim() === ""\<close>
\<close>

definition answer_is_empty :: "js_value \<Rightarrow> bool" where
  "answer_is_empty answer \<longleftrightarrow>
     \<not> truthy answer \<or> \<not> is_string answer \<or>
     (case answer of JString s \<Rightarrow> trim s = [] | _ \<Rightarrow> False)"

text \<open>The body of the handler's \<open>try\<close> block: its result (the exception thrown, if
  any), the calls made, and the world afterwards.\<close>

definition try_block ::
  "texts \<Rightarrow> 'w collaborators \<Rightarrow> int \<Rightarrow> jsstring \<Rightarrow> 'w \<Rightarrow> (js_error + unit) \<times> chat_event list \<times> 'w" where
  "try_block L sv chatId text w0 =
     (case similaritySearch sv text 4 w0 of
        (Inl e, w1) \<Rightarrow> (Inl e, [SimilaritySearch text 4], w1)
      | (Inr docs, w1) \<Rightarrow>
          if length docs = 0 then
            (case sendMessage sv chatId (JString (no_information L)) w1 of
               (r, w2) \<Rightarrow>
                 (r, [SimilaritySearch text 4, SendMessage chatId (JString (no_information L))], w2))
          else
            (case invoke sv (prompt L text docs) w1 of
               (Inl e, w2) \<Rightarrow> (Inl e, [SimilaritySearch text 4, Invoke (prompt L text docs)], w2)
             | (Inr answer, w2) \<Rightarrow>
                 if answer_is_empty answer then
                   (Inl ModelResponseEmpty,
                    [SimilaritySearch text 4, Invoke (prompt L text docs)], w2)
                 else
                   (case sendMessage sv chatId answer w2 of
                      (r, w3) \<Rightarrow>
                        (r, [SimilaritySearch text 4, Invoke (prompt L text docs),
                             SendMessage chatId answer], w3))))"

text \<open>The part of the handler after the command gate: waiting message, \<open>try\<close>,
  \<open>catch\<close>.\<close>

definition answer_question ::
  "texts \<Rightarrow> 'w collaborators \<Rightarrow> int \<Rightarrow> jsstring \<Rightarrow> 'w \<Rightarrow> (settled \<times> chat_event list) \<times> 'w" where
  "answer_question L sv chatId text w0 =
     (case sendMessage sv chatId (JString (waiting L)) w0 of
        (Inl e, w1) \<Rightarrow> ((Rejected e, [SendMessage chatId (JString (waiting L))]), w1)
      | (Inr u, w1) \<Rightarrow>
          (case try_block L sv chatId text w1 of
             (Inr u', ev, w2) \<Rightarrow>
               ((Fulfilled, SendMessage chatId (JString (waiting L)) # ev), w2)
           | (Inl err, ev, w2) \<Rightarrow>
               (case sendMessage sv chatId (JString (apology L)) w2 of
                  (r, w3) \<Rightarrow>
                    ((settle r,
                      SendMessage chatId (JString (waiting L)) # ev @
                      [ErrorLogged err, SendMessage chatId (JString (apology L))]), w3))))"

text \<open>\<^verbatim>\<open>bot.on("message", async (msg) => { ... })\<close>\<close>

definition on_message ::
  "texts \<Rightarrow> 'w collaborators \<Rightarrow> message \<Rightarrow> 'w \<Rightarrow> (settled \<times> chat_event list) \<times> 'w" where
  "on_message L sv msg w0 =
     (let chatId = chat_id msg;
          text = map_option trim (msg_text msg)
      in case text of
           None \<Rightarrow> ((Fulfilled, []), w0)
         | Some t \<Rightarrow>
             if t = [] \<or> startsWith t (lit ''/'') then
               (if t = lit ''/start'' then
                  (case sendMessage sv chatId (JString (greeting L)) w0 of
                     (r, w1) \<Rightarrow> ((settle r, [SendMessage chatId (JString (greeting L))]), w1))
                else ((Fulfilled, []), w0))
             else answer_question L sv chatId t w0)"

text \<open>
  The process around the handler. While the process lives, the event emitter calls the
  handler for each message. A rejected promise reaches the process-wide
  \<open>unhandledRejection\<close> listener, which logs it and does not exit. The \<open>SIGINT\<close>
  handler ends the pool and exits with status 0; when \<open>pool.end()\<close> (the parameter
  \<open>close\<close>) throws, the handler's own promise is rejected before the exit, the
  listener logs that, and the process lives on.
\<close>

record 'w service =
  world :: 'w
  journal :: "chat_event list"
  alive :: bool

definition unhandledRejection :: "js_error \<Rightarrow> 'w service \<Rightarrow> 'w service" where
  "unhandledRejection reason s = s\<lparr>journal := journal s @ [UnhandledRejectionLogged reason]\<rparr>"

definition deliver :: "texts \<Rightarrow> 'w collaborators \<Rightarrow> message \<Rightarrow> 'w service \<Rightarrow> 'w service" where
  "deliver L sv msg s =
     (if alive s then
        (case on_message L sv msg (world s) of
           ((Fulfilled, ev), w) \<Rightarrow> s\<lparr>world := w, journal := journal s @ ev\<rparr>
         | ((Rejected e, ev), w) \<Rightarrow>
             unhandledRejection e (s\<lparr>world := w, journal := journal s @ ev\<rparr>))
      else s)"

definition SIGINT :: "('w \<Rightarrow> (js_error + unit) \<times> 'w) \<Rightarrow> 'w service \<Rightarrow> 'w service" where
  "SIGINT close s =
     (if alive s then
        (case close (world s) of
           (Inr u, w) \<Rightarrow>
             s\<lparr>world := w, journal := journal s @ [PoolEnded, ProcessExited 0], alive := False\<rparr>
         | (Inl e, w) \<Rightarrow>
             unhandledRejection e (s\<lparr>world := w, journal := journal s @ [PoolEnded]\<rparr>))
      else s)"

section \<open>The ingestion script (src/embed_and_store_db.js)\<close>

text \<open>\<open>process.env\<close>: the variables that are set, by name.\<close>

type_synonym environ = "string \<rightharpoonup> jsstring"

datatype js_number = NaN | Infinity | MinusInfinity | Finite real

text \<open>
  \<open>Number(v)\<close> for an environment variable: an absent variable is \<open>undefined\<close>, whose
  number is \<open>NaN\<close>; how the built-in reads a string is taken as the parameter
  \<open>parse\<close>.
\<close>

definition Number :: "(jsstring \<Rightarrow> js_number) \<Rightarrow> jsstring option \<Rightarrow> js_number" where
  "Number parse v = (case v of None \<Rightarrow> NaN | Some s \<Rightarrow> parse s)"

text \<open>\<open>n || d\<close> on a number (\<open>NaN\<close> and zero are falsy) and \<open>s || d\<close> on a string
  that may be absent (\<open>undefined\<close> and the empty string are falsy).\<close>

fun number_or :: "js_number \<Rightarrow> real \<Rightarrow> js_number" where
  "number_or NaN d = Finite d"
| "number_or (Finite x) d = (if x = 0 then Finite d else Finite x)"
| "number_or Infinity d = Infinity"
| "number_or MinusInfinity d = MinusInfinity"

definition string_or :: "jsstring option \<Rightarrow> jsstring \<Rightarrow> jsstring" where
  "string_or v d = (case v of None \<Rightarrow> d | Some s \<Rightarrow> if s = [] then d else s)"

record pg_config =
  host :: "jsstring option"
  port :: "jsstring option"
  user :: "jsstring option"
  password :: "jsstring option"
  database :: "jsstring option"

record metadata =
  source :: jsstring
  uuid :: jsstring

record stored_document = document +
  metadata :: metadata

text \<open>
  The script registers three ways for the process to end while the launcher waits for
  a call: the safety timer of 30 seconds expires, \<open>SIGINT\<close> arrives, or a promise
  rejected somewhere else is left unhandled. An awaited call therefore either settles,
  with the exception it throws or with its result, or the process ends first.
\<close>

datatype signal = Sigint | UnhandledRejection js_error

datatype ending = WatchdogExpired | Signal signal

datatype 'a awaited = Settled "js_error + 'a" | Ended ending

text \<open>
  The collaborators of the script: axios, the text splitter, the pg pool, the vector
  store (whose \<open>initialize\<close> also constructs the embeddings client, and whose
  \<open>addDocuments\<close> embeds and inserts), the uuid generator, and what reaches the process
  during the half second between the end of the pipeline and the exit (\<open>idle\<close>).
\<close>

record 'w services =
  axios_get :: "jsstring option \<Rightarrow> 'w \<Rightarrow> jsstring awaited \<times> 'w"
  createDocuments :: "js_number \<Rightarrow> js_number \<Rightarrow> jsstring \<Rightarrow> 'w \<Rightarrow> document list awaited \<times> 'w"
  new_Pool :: "pg_config \<Rightarrow> 'w \<Rightarrow> (js_error + unit) \<times> 'w"
  pool_query :: "jsstring \<Rightarrow> 'w \<Rightarrow> unit awaited \<times> 'w"
  initialize :: "jsstring \<Rightarrow> 'w \<Rightarrow> unit awaited \<times> 'w"
  v4 :: "'w \<Rightarrow> jsstring \<times> 'w"
  addDocuments :: "stored_document list \<Rightarrow> 'w \<Rightarrow> unit awaited \<times> 'w"
  pool_end :: "'w \<Rightarrow> unit awaited \<times> 'w"
  idle :: "'w \<Rightarrow> signal option \<times> 'w"
  parse_number :: "jsstring \<Rightarrow> js_number"

datatype timer = Watchdog | ExitDelay

text \<open>
  What a run does that is visible outside, in order: timers set, cleared and fired,
  the calls made, the pool constructed, the errors logged by the three \<open>catch\<close>
  blocks, what the two process-level handlers log, and the exit. Informational logging
  is left out.
\<close>

datatype ingest_event =
    SetTimeout timer nat
  | ClearTimeout timer
  | TimerFired timer
  | Get "jsstring option"
  | CreateDocuments js_number js_number jsstring
  | PoolCreated pg_config
  | PoolQuery jsstring
  | Initialize jsstring
  | AddDocuments "stored_document list"
  | PoolEnd
  | StoreErrorLogged js_error
  | CloseErrorLogged js_error
  | MainErrorLogged js_error
  | SigintLogged
  | RejectionLogged js_error
  | Exit nat

text \<open>
  The process-level handlers: \<open>SIGINT\<close> exits with status 0, an unhandled rejection
  with status 1, and the safety timer's callback with status 0. Each gives the exit
  status and the events of the ending.
\<close>

fun on_signal :: "signal \<Rightarrow> nat \<times> ingest_event list" where
  "on_signal Sigint = (0, [SigintLogged, Exit 0])"
| "on_signal (UnhandledRejection reason) = (1, [RejectionLogged reason, Exit 1])"

fun process_ends :: "ending \<Rightarrow> nat \<times> ingest_event list" where
  "process_ends WatchdogExpired = (0, [TimerFired Watchdog, Exit 0])"
| "process_ends (Signal s) = on_signal s"

definition chunkSize :: "'w services \<Rightarrow> environ \<Rightarrow> js_number" where
  "chunkSize sv env = number_or (Number (parse_number sv) (env ''CHUNK_SIZE'')) 1000"

definition chunkOverlap :: "'w services \<Rightarrow> environ \<Rightarrow> js_number" where
  "chunkOverlap sv env = number_or (Number (parse_number sv) (env ''CHUNK_OVERLAP'')) 100"

definition tableName :: "environ \<Rightarrow> jsstring" where
  "tableName env = string_or (env ''TABLE_NAME'') (lit ''documentos_rag'')"

definition pool_config :: "environ \<Rightarrow> pg_config" where
  "pool_config env = \<lparr>host = env ''PGHOST'', port = env ''PGPORT'', user = env ''PGUSER'',
     password = env ''PGPASSWORD'', database = env ''PGDATABASE''\<rparr>"

text \<open>
  \<^verbatim>\<open>docs.map((d) => ({ pageContent: d.pageContent,
      metadata: { source: "truora-blog", uuid: uuid() } }))\<close>
\<close>

fun with_metadata :: "'w services \<Rightarrow> document list \<Rightarrow> 'w \<Rightarrow> stored_document list \<times> 'w" where
  "with_metadata sv [] w = ([], w)"
| "with_metadata sv (d # ds) w =
     (case v4 sv w of
        (u, w1) \<Rightarrow>
          (case with_metadata sv ds w1 of
             (rest, w2) \<Rightarrow>
               (\<lparr>pageContent = pageContent d,
                 metadata = \<lparr>source = lit ''truora-blog'', uuid = u\<rparr>\<rparr> # rest, w2)))"

text \<open>The \<open>try\<close> block of \<open>embedAndStore\<close>, after the pool has been constructed.\<close>

definition store_documents ::
  "environ \<Rightarrow> 'w services \<Rightarrow> document list \<Rightarrow> 'w \<Rightarrow> (bool awaited \<times> ingest_event list) \<times> 'w" where
  "store_documents env sv docs w0 =
     (case pool_query sv (lit ''SELECT 1'') w0 of
        (Ended x, w1) \<Rightarrow> ((Ended x, [PoolQuery (lit ''SELECT 1'')]), w1)
      | (Settled (Inl e), w1) \<Rightarrow> ((Settled (Inl e), [PoolQuery (lit ''SELECT 1'')]), w1)
      | (Settled (Inr u), w1) \<Rightarrow>
          (case initialize sv (tableName env) w1 of
             (Ended x, w2) \<Rightarrow>
               ((Ended x, [PoolQuery (lit ''SELECT 1''), Initialize (tableName env)]), w2)
           | (Settled (Inl e), w2) \<Rightarrow>
               ((Settled (Inl e), [PoolQuery (lit ''SELECT 1''), Initialize (tableName env)]), w2)
           | (Settled (Inr u'), w2) \<Rightarrow>
               (case with_metadata sv docs w2 of
                  (stored, w3) \<Rightarrow>
                    (case addDocuments sv stored w3 of
                       (Ended x, w4) \<Rightarrow>
                         ((Ended x, [PoolQuery (lit ''SELECT 1''), Initialize (tableName env),
                            AddDocuments stored]), w4)
                     | (Settled (Inl e), w4) \<Rightarrow>
                         ((Settled (Inl e), [PoolQuery (lit ''SELECT 1''),
                            Initialize (tableName env), AddDocuments stored]), w4)
                     | (Settled (Inr u''), w4) \<Rightarrow>
                         ((Settled (Inr True), [PoolQuery (lit ''SELECT 1''),
                            Initialize (tableName env), AddDocuments stored]), w4)))))"

text \<open>The \<open>catch\<close> block of \<open>embedAndStore\<close> logs the error and throws it again; the
  \<open>catch\<close> inside its \<open>finally\<close> block logs what \<open>pool.end()\<close> throws and goes on.\<close>

fun catch_log :: "js_error + bool \<Rightarrow> ingest_event list" where
  "catch_log (Inl e) = [StoreErrorLogged e]"
| "catch_log (Inr b) = []"

fun close_log :: "js_error + unit \<Rightarrow> ingest_event list" where
  "close_log (Inl e) = [CloseErrorLogged e]"
| "close_log (Inr u) = []"

text \<open>
  \<open>embedAndStore\<close>: \<open>pool\<close> is \<open>null\<close> until the constructor has returned; the
  \<open>finally\<close> block ends the pool if there is one. When the process ends while a call
  is awaited, nothing after that call runs, the \<open>finally\<close> block included.
\<close>

definition embedAndStore ::
  "environ \<Rightarrow> 'w services \<Rightarrow> document list \<Rightarrow> 'w \<Rightarrow> (bool awaited \<times> ingest_event list) \<times> 'w" where
  "embedAndStore env sv docs w0 =
     (case new_Pool sv (pool_config env) w0 of
        (Inl e, w1) \<Rightarrow> ((Settled (Inl e), [StoreErrorLogged e]), w1)
      | (Inr u, w1) \<Rightarrow>
          (case store_documents env sv docs w1 of
             ((Ended x, ev), w2) \<Rightarrow> ((Ended x, PoolCreated (pool_config env) # ev), w2)
           | ((Settled r, ev), w2) \<Rightarrow>
               (case pool_end sv w2 of
                  (Ended x, w3) \<Rightarrow>
                    ((Ended x, PoolCreated (pool_config env) # ev @ catch_log r @ [PoolEnd]), w3)
                | (Settled c, w3) \<Rightarrow>
                    ((Settled r, PoolCreated (pool_config env) # ev @ catch_log r @
                        PoolEnd # close_log c), w3))))"

text \<open>
  The launcher. The safety timer is set first. While the launcher waits for a call the
  process can end (\<open>Ended\<close>), with the status and the events of \<open>process_ends\<close>. A
  caught error clears the timer and exits with status 1. Success clears the timer and
  sets the exit for half a second later; a signal in that half second ends the process
  as \<open>on_signal\<close> says, otherwise the exit has status 0. The result is the exit status
  with the events of the run.
\<close>

definition launcher ::
  "jsstring option \<Rightarrow> environ \<Rightarrow> 'w services \<Rightarrow> 'w \<Rightarrow> (nat \<times> ingest_event list) \<times> 'w" where
  "launcher url env sv w0 =
     (case axios_get sv url w0 of
        (Ended x, w1) \<Rightarrow>
          ((fst (process_ends x),
            [SetTimeout Watchdog 30000, Get url] @ snd (process_ends x)), w1)
      | (Settled (Inl e), w1) \<Rightarrow>
          ((1, [SetTimeout Watchdog 30000, Get url, MainErrorLogged e, ClearTimeout Watchdog,
                Exit 1]), w1)
      | (Settled (Inr rawText), w1) \<Rightarrow>
          (case createDocuments sv (chunkSize sv env) (chunkOverlap sv env) rawText w1 of
             (Ended x, w2) \<Rightarrow>
               ((fst (process_ends x),
                 [SetTimeout Watchdog 30000, Get url,
                  CreateDocuments (chunkSize sv env) (chunkOverlap sv env) rawText] @
                 snd (process_ends x)), w2)
           | (Settled (Inl e), w2) \<Rightarrow>
               ((1, [SetTimeout Watchdog 30000, Get url,
                     CreateDocuments (chunkSize sv env) (chunkOverlap sv env) rawText,
                     MainErrorLogged e, ClearTimeout Watchdog, Exit 1]), w2)
           | (Settled (Inr docs), w2) \<Rightarrow>
               (case embedAndStore env sv docs w2 of
                  ((Ended x, ev), w3) \<Rightarrow>
                    ((fst (process_ends x),
                      [SetTimeout Watchdog 30000, Get url,
                       CreateDocuments (chunkSize sv env) (chunkOverlap sv env) rawText] @ ev @
                      snd (process_ends x)), w3)
                | ((Settled (Inl e), ev), w3) \<Rightarrow>
                    ((1, [SetTimeout Watchdog 30000, Get url,
                          CreateDocuments (chunkSize sv env) (chunkOverlap sv env) rawText] @ ev @
                         [MainErrorLogged e, ClearTimeout Watchdog, Exit 1]), w3)
                | ((Settled (Inr b), ev), w3) \<Rightarrow>
                    (case idle sv w3 of
                       (None, w4) \<Rightarrow>
                         ((0, [SetTimeout Watchdog 30000, Get url,
                               CreateDocuments (chunkSize sv env) (chunkOverlap sv env) rawText] @
                              ev @
                              [ClearTimeout Watchdog, SetTimeout ExitDelay 500,
                               TimerFired ExitDelay, Exit 0]), w4)
                     | (Some s, w4) \<Rightarrow>
                         ((fst (on_signal s),
                           [SetTimeout Watchdog 30000, Get url,
                            CreateDocuments (chunkSize sv env) (chunkOverlap sv env) rawText] @
                           ev @ [ClearTimeout Watchdog, SetTimeout ExitDelay 500] @
                           snd (on_signal s)), w4)))))"

text \<open>The English edition reads the source from \<open>URL_REMOTE_TEXT\<close>; the Spanish
  edition has it in the code.\<close>

definition main :: "environ \<Rightarrow> 'w services \<Rightarrow> 'w \<Rightarrow> (nat \<times> ingest_event list) \<times> 'w" where
  "main env sv w = launcher (env ''URL_REMOTE_TEXT'') env sv w"

definition truora_blog :: jsstring where
  "truora_blog =
     lit ''https://raw.githubusercontent.com/juanhenaoparra/examples/refs/heads/main/truora-blog.txt''"

definition main_es :: "environ \<Rightarrow> 'w services \<Rightarrow> 'w \<Rightarrow> (nat \<times> ingest_event list) \<times> 'w" where
  "main_es env sv w = launcher (Some truora_blog) env sv w"

section \<open>Scripted collaborators, sample inputs and the contract of the vector store\<close>

text \<open>
  Scripted collaborators for concrete runs: the world counts the \<open>sendMessage\<close>
  calls made so far, and every call from the \<open>n\<close>-th on (counting from 0) throws;
  the store holds \<open>found\<close> and the model answers \<open>reply\<close>.
\<close>

definition scripted :: "nat \<Rightarrow> js_error + document list \<Rightarrow> js_error + js_value \<Rightarrow> nat collaborators" where
  "scripted n found reply = \<lparr>
     sendMessage = (\<lambda>chatId v w. (if n \<le> w then Inl (Thrown ''ETELEGRAM'') else Inr (), Suc w)),
     similaritySearch = (\<lambda>q k w. (map_sum id (take k) found, w)),
     invoke = (\<lambda>p w. (reply, w)) \<rparr>"

text \<open>
  The same, with a Telegram client whose \<open>n\<close>-th call alone throws.
\<close>

definition failing_once :: "nat \<Rightarrow> js_error + document list \<Rightarrow> js_error + js_value \<Rightarrow> nat collaborators" where
  "failing_once n found reply = \<lparr>
     sendMessage = (\<lambda>chatId v w. (if w = n then Inl (Thrown ''ETELEGRAM'') else Inr (), Suc w)),
     similaritySearch = (\<lambda>q k w. (map_sum id (take k) found, w)),
     invoke = (\<lambda>p w. (reply, w)) \<rparr>"


text \<open>The scenario of the specification: one stored record, one question.\<close>

definition what_is_X :: message where
  "what_is_X = \<lparr>chat_id = 7, first_name = Some (lit ''Ana''), msg_text = Some (lit ''What is X?'')\<rparr>"

definition X_is_a_thing :: document where
  "X_is_a_thing = \<lparr>pageContent = lit ''X is a thing''\<rparr>"

text \<open>
  The specification's words "the fragments, followed by an instruction": \<open>part\<close>
  occurs in \<open>whole\<close> at offset \<open>i\<close>, and some occurrence of \<open>a\<close> in \<open>whole\<close> ends
  before an occurrence of \<open>b\<close> starts.
\<close>

definition occurs_at :: "jsstring \<Rightarrow> jsstring \<Rightarrow> nat \<Rightarrow> bool" where
  "occurs_at part whole i \<longleftrightarrow>
     i + length part \<le> length whole \<and> take (length part) (drop i whole) = part"

definition followed_by :: "jsstring \<Rightarrow> jsstring \<Rightarrow> jsstring \<Rightarrow> bool" where
  "followed_by whole a b \<longleftrightarrow>
     (\<exists>i\<in>set [0..<Suc (length whole)]. occurs_at a whole i \<and>
        (\<exists>j\<in>set [i + length a..<Suc (length whole)]. occurs_at b whole j))"

text \<open>
  Scripted collaborators for concrete runs of the launcher: every call settles as the
  script says, whatever its arguments; \<open>on_number\<close> lists what \<open>Number\<close> answers for the
  strings it is asked about in the run (no other string is asked about); the world
  counts the uuids handed out.
\<close>

record script =
  on_get :: "jsstring awaited"
  on_split :: "document list awaited"
  on_new_pool :: "js_error + unit"
  on_query :: "unit awaited"
  on_initialize :: "unit awaited"
  on_add :: "unit awaited"
  on_end :: "unit awaited"
  on_idle :: "signal option"
  on_number :: "(jsstring \<times> js_number) list"

definition scripted_run :: "script \<Rightarrow> nat services" where
  "scripted_run s = \<lparr>
     axios_get = (\<lambda>url w. (on_get s, w)),
     createDocuments = (\<lambda>size overlap rawText w. (on_split s, w)),
     new_Pool = (\<lambda>config w. (on_new_pool s, w)),
     pool_query = (\<lambda>sql w. (on_query s, w)),
     initialize = (\<lambda>table w. (on_initialize s, w)),
     v4 = (\<lambda>w. (decimal w, Suc w)),
     addDocuments = (\<lambda>stored w. (on_add s, w)),
     pool_end = (\<lambda>w. (on_end s, w)),
     idle = (\<lambda>w. (on_idle s, w)),
     parse_number = (\<lambda>text. case map_of (on_number s) text of Some n \<Rightarrow> n | None \<Rightarrow> NaN) \<rparr>"

definition all_ok :: script where
  "all_ok = \<lparr>
     on_get = Settled (Inr (lit ''Hello world. This is a test.'')),
     on_split = Settled (Inr [\<lparr>pageContent = lit ''Hello world.''\<rparr>]),
     on_new_pool = Inr (),
     on_query = Settled (Inr ()),
     on_initialize = Settled (Inr ()),
     on_add = Settled (Inr ()),
     on_end = Settled (Inr ()),
     on_idle = None,
     on_number = [(lit ''1000'', Finite 1000), (lit ''100'', Finite 100)] \<rparr>"

text \<open>An environment with the source and the database set, and one with the chunk
  configuration and the table name as well.\<close>

definition bare_env :: environ where
  "bare_env = map_of
     [(''URL_REMOTE_TEXT'', lit ''https://example.com/your_text_source.txt''),
      (''PGHOST'', lit ''localhost''), (''PGPORT'', lit ''5432''),
      (''PGDATABASE'', lit ''rag''), (''PGUSER'', lit ''postgres''),
      (''PGPASSWORD'', lit ''secret'')]"

definition full_env :: environ where
  "full_env = bare_env(''TABLE_NAME'' \<mapsto> lit ''documentos_rag'',
     ''CHUNK_SIZE'' \<mapsto> lit ''1000'', ''CHUNK_OVERLAP'' \<mapsto> lit ''100'')"

text \<open>Runs in which the download is still pending after the 30 seconds, the download
  fails, the insertion fails, the insertion fails before \<open>pool.end()\<close> hangs, and
  \<open>SIGINT\<close> arrives during the insertion.\<close>

definition fetch_hangs :: script where
  "fetch_hangs = all_ok\<lparr>on_get := Ended WatchdogExpired\<rparr>"

definition fetch_fails :: script where
  "fetch_fails = all_ok\<lparr>on_get := Settled (Inl (Thrown ''ENOTFOUND''))\<rparr>"


definition store_fails_close_hangs :: script where
  "store_fails_close_hangs =
     all_ok\<lparr>on_add := Settled (Inl (Thrown ''ECONNRESET'')), on_end := Ended WatchdogExpired\<rparr>"

definition interrupted_while_storing :: script where
  "interrupted_while_storing = all_ok\<lparr>on_add := Ended (Signal Sigint)\<rparr>"

section \<open>Facts about strings\<close>

lemma dropWhile_all_iff:
  "(\<forall>c\<in>set (dropWhile P s). P c) \<longleftrightarrow> (\<forall>c\<in>set s. P c)"
proof
  assume all: "\<forall>c\<in>set (dropWhile P s). P c"
  show "\<forall>c\<in>set s. P c"
  proof (cases "dropWhile P s")
    case Nil
    then show ?thesis by (simp add: dropWhile_eq_Nil_conv)
  next
    case (Cons x xs)
    then have "\<not> P x" using hd_dropWhile [of P s] by simp
    moreover have "P x" using all Cons by simp
    ultimately show ?thesis by simp
  qed
next
  assume "\<forall>c\<in>set s. P c"
  then show "\<forall>c\<in>set (dropWhile P s). P c"
    by (meson set_dropWhileD)
qed

lemma trim_empty_iff: "trim s = [] \<longleftrightarrow> (\<forall>c\<in>set s. is_whitespace c)"
proof -
  have "trim s = [] \<longleftrightarrow> (\<forall>c\<in>set (dropWhile is_whitespace s). is_whitespace c)"
    by (simp add: trim_def dropWhile_eq_Nil_conv)
  then show ?thesis
    by (simp only: dropWhile_all_iff)
qed

lemma slash_not_whitespace: "\<not> is_whitespace 0x2F"
  by (simp add: is_whitespace_def)

lemma lit_slash: "lit ''/'' = [0x2F]"
  by (simp add: lit_def)

lemma startsWith_slash: "startsWith s (lit ''/'') \<longleftrightarrow> (\<exists>r. s = 0x2F # r)"
  by (cases s) (auto simp: startsWith_def lit_slash)

lemma trim_keeps_slash:
  assumes "startsWith raw (lit ''/'')"
  shows "startsWith (trim raw) (lit ''/'')"
proof -
  from assms obtain r where raw: "raw = 0x2F # r"
    by (auto simp: startsWith_slash)
  have "dropWhile is_whitespace (rev r @ [0x2F]) = dropWhile is_whitespace (rev r) @ [0x2F]"
    by (simp add: dropWhile_append slash_not_whitespace)
  then have "trim raw = 0x2F # rev (dropWhile is_whitespace (rev r))"
    by (simp add: trim_def raw slash_not_whitespace)
  then show ?thesis
    by (simp add: startsWith_slash)
qed

lemma answer_is_empty_iff:
  "answer_is_empty answer \<longleftrightarrow>
     answer = JUndefined \<or> answer = JNull \<or> answer = JObject \<or>
     (\<exists>s. answer = JString s \<and> (\<forall>c\<in>set s. is_whitespace c))"
  by (cases answer) (auto simp: answer_is_empty_def trim_empty_iff)

section \<open>The message handler\<close>

lemma on_message_question:
  assumes "map_option trim (msg_text msg) = Some t" "t \<noteq> []" "\<not> startsWith t (lit ''/'')"
  shows "on_message L sv msg w = answer_question L sv (chat_id msg) t w"
  using assms by (auto simp: on_message_def Let_def)

lemma on_message_ignored:
  assumes "case map_option trim (msg_text msg) of None \<Rightarrow> True
           | Some t \<Rightarrow> t = [] \<or> startsWith t (lit ''/'')"
  shows "snd (fst (on_message L sv msg w)) =
           (if map_option trim (msg_text msg) = Some (lit ''/start'')
            then [SendMessage (chat_id msg) (JString (greeting L))] else [])"
  using assms by (auto simp: on_message_def Let_def split: option.splits prod.splits)

text \<open>
  C10. A message whose text is absent, is empty after trimming, or starts with \<open>/\<close>
  (before or after trimming) is not answered: the handler makes no retrieval and no
  generation call. Its only possible call is the greeting, sent to the same chat when
  the trimmed text is exactly \<open>/start\<close>; every other such message gets no reply.
\<close>

theorem commands_and_blank_messages_get_no_answer:
  assumes "case msg_text msg of None \<Rightarrow> True
           | Some raw \<Rightarrow> trim raw = [] \<or> startsWith raw (lit ''/'') \<or> startsWith (trim raw) (lit ''/'')"
  shows "snd (fst (on_message L sv msg w)) =
           (if map_option trim (msg_text msg) = Some (lit ''/start'')
            then [SendMessage (chat_id msg) (JString (greeting L))] else []) \<and>
         SimilaritySearch q k \<notin> set (snd (fst (on_message L sv msg w))) \<and>
         Invoke p \<notin> set (snd (fst (on_message L sv msg w)))"
proof -
  have "case map_option trim (msg_text msg) of None \<Rightarrow> True
        | Some t \<Rightarrow> t = [] \<or> startsWith t (lit ''/'')"
    using assms by (auto split: option.splits dest: trim_keeps_slash)
  then have "snd (fst (on_message L sv msg w)) =
           (if map_option trim (msg_text msg) = Some (lit ''/start'')
            then [SendMessage (chat_id msg) (JString (greeting L))] else [])"
    by (rule on_message_ignored)
  then show ?thesis by simp
qed

theorem commands_and_blank_messages_get_no_answer_witness:
  "snd (fst (on_message chatbot_en (scripted 9 (Inr []) (Inr JNull))
       \<lparr>chat_id = 7, first_name = None, msg_text = Some (lit '' /start '')\<rparr> 0)) =
     [SendMessage 7 (JString (greeting chatbot_en))] \<and>
   snd (fst (on_message chatbot_en (scripted 9 (Inr []) (Inr JNull))
       \<lparr>chat_id = 7, first_name = None, msg_text = Some (lit ''/help'')\<rparr> 0)) = [] \<and>
   snd (fst (on_message chatbot_en (scripted 9 (Inr []) (Inr JNull))
       \<lparr>chat_id = 7, first_name = None, msg_text = None\<rparr> 0)) = []"
proof -
  have t1: "trim (lit '' /start '') = lit ''/start''" and t2: "trim (lit ''/help'') = lit ''/help''"
    by (simp_all add: trim_def lit_def is_whitespace_def)
  have ne: "lit ''/help'' \<noteq> lit ''/start''"
    by (simp add: lit_def)
  show ?thesis
    using commands_and_blank_messages_get_no_answer
        [of "\<lparr>chat_id = 7, first_name = None, msg_text = Some (lit '' /start '')\<rparr>"
            chatbot_en "scripted 9 (Inr []) (Inr JNull)" 0 "[]" 0 "[]"]
      commands_and_blank_messages_get_no_answer
        [of "\<lparr>chat_id = 7, first_name = None, msg_text = Some (lit ''/help'')\<rparr>"
            chatbot_en "scripted 9 (Inr []) (Inr JNull)" 0 "[]" 0 "[]"]
      commands_and_blank_messages_get_no_answer
        [of "\<lparr>chat_id = 7, first_name = None, msg_text = None\<rparr>"
            chatbot_en "scripted 9 (Inr []) (Inr JNull)" 0 "[]" 0 "[]"]
    by (simp add: t1 t2 ne startsWith_def lit_slash) (simp add: lit_def)
qed

section \<open>The prompt\<close>

lemma occurs_at_iff:
  "occurs_at part whole i \<longleftrightarrow> (\<exists>p s. whole = p @ part @ s \<and> length p = i)"
proof
  assume o: "occurs_at part whole i"
  then have "whole = take i whole @ part @ drop (length part) (drop i whole)"
    by (metis append_take_drop_id occurs_at_def)
  moreover have "length (take i whole) = i"
    using o by (simp add: occurs_at_def)
  ultimately show "\<exists>p s. whole = p @ part @ s \<and> length p = i"
    by blast
next
  assume "\<exists>p s. whole = p @ part @ s \<and> length p = i"
  then show "occurs_at part whole i"
    by (auto simp: occurs_at_def)
qed

lemma followed_by_iff:
  "followed_by whole a b \<longleftrightarrow> (\<exists>x y z. whole = x @ a @ y @ b @ z)"
proof
  assume "followed_by whole a b"
  then obtain i j where i: "occurs_at a whole i" and j: "occurs_at b whole j"
    and ij: "i + length a \<le> j"
    by (auto simp: followed_by_def)
  from j obtain p s where w: "whole = p @ b @ s" and p: "length p = j"
    by (auto simp: occurs_at_iff)
  from i ij p w have "occurs_at a p i"
    by (auto simp: occurs_at_def)
  then obtain x y where "p = x @ a @ y"
    by (auto simp: occurs_at_iff)
  with w show "\<exists>x y z. whole = x @ a @ y @ b @ z"
    by auto
next
  assume "\<exists>x y z. whole = x @ a @ y @ b @ z"
  then obtain x y z where w: "whole = x @ a @ y @ b @ z"
    by blast
  have "occurs_at a whole (length x)"
    by (auto simp: occurs_at_iff w)
  moreover have "occurs_at b whole (length x + length a + length y)"
    unfolding occurs_at_iff w by (rule exI [of _ "x @ a @ y"]) auto
  ultimately show "followed_by whole a b"
    unfolding followed_by_def
    by (intro bexI [of _ "length x"] conjI bexI [of _ "length x + length a + length y"])
       (auto simp: w)
qed

lemma join_append_Cons:
  "join sep (as @ x # bs) =
     (if as = [] then [] else join sep as @ sep) @ x @ (if bs = [] then [] else sep @ join sep bs)"
proof (induction sep as rule: join.induct)
  case (1 sep)
  show ?case by (cases bs) simp_all
next
  case (2 sep a)
  show ?case by (cases bs) simp_all
next
  case (3 sep a b as)
  then show ?case by simp
qed

lemma join_contains:
  assumes "x \<in> set xs"
  shows "\<exists>pre post. join sep xs = pre @ x @ post"
proof -
  from assms obtain as bs where "xs = as @ x # bs"
    by (auto simp: in_set_conv_decomp)
  then show ?thesis
    by (metis join_append_Cons)
qed

lemma join_in_order:
  assumes "i < j" "j < length xs"
  shows "\<exists>x y z. join sep xs = x @ xs ! i @ y @ xs ! j @ z"
proof -
  define bs where "bs = drop (Suc j) xs"
  have xs: "xs = take j xs @ xs ! j # bs"
    using assms by (simp add: id_take_nth_drop bs_def)
  have i: "xs ! i \<in> set (take j xs)"
    using assms by (metis in_set_conv_nth length_take min.absorb2 nat_less_le nth_take)
  have ne: "take j xs \<noteq> []"
    using assms by auto
  from i obtain pre post where "join sep (take j xs) = pre @ xs ! i @ post"
    using join_contains by blast
  then have "join sep xs = pre @ xs ! i @ (post @ sep) @ xs ! j @ (if bs = [] then [] else sep @ join sep bs)"
    using join_append_Cons [of sep "take j xs" "xs ! j" bs] xs ne by simp
  then show ?thesis by blast
qed

lemma tagged_list:
  "map (\<lambda>(i, d). tagged i d) (enumerate 0 docs) =
   map (\<lambda>i. tagged i (docs ! i)) [0..<length docs]"
  by (rule nth_equalityI) (simp_all add: nth_enumerate_eq)

text \<open>
  C6, as amended. The context lists the fragments in ranked order, fragment \<open>i\<close>
  (counting from 0) tagged \<open>(i + 1)\<close>, joined by line breaks; the prompt contains the
  content of every fragment verbatim; and the prompt is the instruction to answer only
  from the information provided, a blank line, the context, a blank line, the question
  line with the literal question, and the answer cue. The instruction comes before the
  fragments, not after them.
\<close>

theorem prompt_layout:
  "prompt_context docs =
     join newline (map (\<lambda>i. lit ''('' @ decimal (i + 1) @ lit '') '' @ pageContent (docs ! i))
       [0..<length docs]) \<and>
   (\<forall>j<length docs. \<forall>i<j. \<exists>x y z. prompt_context docs =
      x @ tagged i (docs ! i) @ y @ tagged j (docs ! j) @ z) \<and>
   (\<forall>d\<in>set docs. \<exists>pre post. prompt L q docs = pre @ pageContent d @ post) \<and>
   prompt chatbot_es q docs =
     instruction_es @ newline @ newline @ prompt_context docs @ newline @ newline @
     lit ''Pregunta: '' @ q @ newline @ lit ''Respuesta en espa'' @ [0x00F1] @ lit ''ol:'' \<and>
   prompt chatbot_en q docs =
     instruction_en @ newline @ newline @ indent_en @ prompt_context docs @ newline @ newline @
     indent_en @ lit ''Question: '' @ q @ newline @ indent_en @ lit ''Answer:''"
proof -
  have a: "prompt_context docs =
     join newline (map (\<lambda>i. lit ''('' @ decimal (i + 1) @ lit '') '' @ pageContent (docs ! i))
       [0..<length docs])"
    unfolding prompt_context_def tagged_list by (simp add: tagged_def)
  have b: "\<exists>x y z. prompt_context docs = x @ tagged i (docs ! i) @ y @ tagged j (docs ! j) @ z"
    if "j < length docs" "i < j" for i j
    using join_in_order [of i j "map (\<lambda>i. tagged i (docs ! i)) [0..<length docs]" newline] that
    by (simp add: prompt_context_def tagged_list)
  have c: "\<exists>pre post. prompt L q docs = pre @ pageContent d @ post" if "d \<in> set docs" for d
  proof -
    from that obtain i where i: "i < length docs" "docs ! i = d"
      by (auto simp: in_set_conv_nth)
    then have "tagged i d \<in> set (map (\<lambda>i. tagged i (docs ! i)) [0..<length docs])"
      by auto
    then obtain pre post where "prompt_context docs = pre @ tagged i d @ post"
      using join_contains unfolding prompt_context_def tagged_list by blast
    then have "prompt L q docs =
        (prompt_head L @ pre @ lit ''('' @ decimal (i + 1) @ lit '') '') @ pageContent d @
        (post @ prompt_mid L @ q @ prompt_tail L)"
      by (simp add: prompt_def tagged_def)
    then show ?thesis by blast
  qed
  have d: "prompt chatbot_es q docs =
     instruction_es @ newline @ newline @ prompt_context docs @ newline @ newline @
     lit ''Pregunta: '' @ q @ newline @ lit ''Respuesta en espa'' @ [0x00F1] @ lit ''ol:''"
    by (simp add: prompt_def chatbot_es_def)
  have e: "prompt chatbot_en q docs =
     instruction_en @ newline @ newline @ indent_en @ prompt_context docs @ newline @ newline @
     indent_en @ lit ''Question: '' @ q @ newline @ indent_en @ lit ''Answer:''"
    by (simp add: prompt_def chatbot_en_def)
  from a b c d e show ?thesis by blast
qed

theorem prompt_layout_witness:
  "X_is_a_thing \<in> set [X_is_a_thing] \<and>
   (\<exists>pre post. prompt chatbot_es (lit ''What is X?'') [X_is_a_thing] =
      pre @ lit ''X is a thing'' @ post) \<and>
   prompt_context [X_is_a_thing] = lit ''(1) X is a thing''"
proof -
  have p: "pageContent X_is_a_thing = lit ''X is a thing''"
    by (simp add: X_is_a_thing_def)
  have n: "decimal (Suc 0) = lit ''1''"
    by (simp add: decimal.simps digit_def lit_def)
  from prompt_layout [of "[X_is_a_thing]" chatbot_es "lit ''What is X?''"]
  have a: "prompt_context [X_is_a_thing] =
      join newline (map (\<lambda>i. lit ''('' @ decimal (i + 1) @ lit '') '' @ pageContent ([X_is_a_thing] ! i))
        [0..<length [X_is_a_thing]])"
    and b: "\<forall>d\<in>set [X_is_a_thing]. \<exists>pre post.
      prompt chatbot_es (lit ''What is X?'') [X_is_a_thing] = pre @ pageContent d @ post"
    by blast+
  from a have "prompt_context [X_is_a_thing] = lit ''(1) X is a thing''"
    by (simp add: n p) (simp add: lit_def)
  moreover from b have "\<exists>pre post.
      prompt chatbot_es (lit ''What is X?'') [X_is_a_thing] = pre @ lit ''X is a thing'' @ post"
    by (simp add: p)
  ultimately show ?thesis by simp
qed

text \<open>
  C6 as stated fails on the specification's own scenario: in the prompt built for the
  question "What is X?" from the fragment "X is a thing", the instruction is at
  offset 0, the tagged fragment at offset 74, and no occurrence of the instruction
  follows the fragment.
\<close>

theorem instruction_precedes_fragments:
  "occurs_at instruction_es (prompt chatbot_es (lit ''What is X?'') [X_is_a_thing]) 0 \<and>
   occurs_at (prompt_context [X_is_a_thing])
     (prompt chatbot_es (lit ''What is X?'') [X_is_a_thing]) 74 \<and>
   \<not> followed_by (prompt chatbot_es (lit ''What is X?'') [X_is_a_thing])
     (prompt_context [X_is_a_thing]) instruction_es"
  by code_simp

section \<open>Questions\<close>

lemma what_is_X_question:
  "map_option trim (msg_text what_is_X) = Some (lit ''What is X?'')"
  "lit ''What is X?'' \<noteq> []"
  "\<not> startsWith (lit ''What is X?'') (lit ''/'')"
  "chat_id what_is_X = 7"
  by (simp_all add: what_is_X_def trim_def lit_def is_whitespace_def startsWith_def)

lemma scripted_simps:
  "sendMessage (scripted n found reply) c v w =
     (if n \<le> w then Inl (Thrown ''ETELEGRAM'') else Inr (), Suc w)"
  "similaritySearch (scripted n found reply) q k w = (map_sum id (take k) found, w)"
  "invoke (scripted n found reply) p w = (reply, w)"
  by (simp_all add: scripted_def)

lemma failing_once_simps:
  "sendMessage (failing_once n found reply) c v w =
     (if w = n then Inl (Thrown ''ETELEGRAM'') else Inr (), Suc w)"
  "similaritySearch (failing_once n found reply) q k w = (map_sum id (take k) found, w)"
  "invoke (failing_once n found reply) p w = (reply, w)"
  by (simp_all add: failing_once_def)




text \<open>
  C1, as amended. For a question, an exception raised inside the handler's \<open>try\<close> block
  is caught, whichever step raises it: the retrieval, the delivery of the
  no-information message, the model call, the check of the model's answer, or the
  delivery of the answer (the prompt is built without a call that can throw). It is
  logged, and one apology is sent to the same chat as the handler's last call. But the
  apology is sent inside the \<open>catch\<close> block and the waiting message before the \<open>try\<close>
  block: when either delivery throws, the exception leaves the handler, whose promise
  is rejected. A rejected promise is logged by the process-wide listener, and the
  service stays alive and handles the next message: handling a message never ends the
  service, which only \<open>SIGINT\<close> does.
\<close>

theorem guarded_exception_becomes_apology:
  assumes "map_option trim (msg_text msg) = Some t" "t \<noteq> []" "\<not> startsWith t (lit ''/'')"
  shows "(sendMessage sv (chat_id msg) (JString (waiting L)) w0 = (Inl e, w1) \<longrightarrow>
            on_message L sv msg w0 =
              ((Rejected e, [SendMessage (chat_id msg) (JString (waiting L))]), w1)) \<and>
         (sendMessage sv (chat_id msg) (JString (waiting L)) w0 = (Inr (), w1) \<longrightarrow>
            (similaritySearch sv t 4 w1 = (Inl e, w2) \<longrightarrow>
             sendMessage sv (chat_id msg) (JString (apology L)) w2 = (r, w5) \<longrightarrow>
               on_message L sv msg w0 =
                 ((settle r,
                   [SendMessage (chat_id msg) (JString (waiting L)), SimilaritySearch t 4,
                    ErrorLogged e, SendMessage (chat_id msg) (JString (apology L))]), w5)) \<and>
            (similaritySearch sv t 4 w1 = (Inr [], w2) \<longrightarrow>
             sendMessage sv (chat_id msg) (JString (no_information L)) w2 = (Inl e, w3) \<longrightarrow>
             sendMessage sv (chat_id msg) (JString (apology L)) w3 = (r, w5) \<longrightarrow>
               on_message L sv msg w0 =
                 ((settle r,
                   [SendMessage (chat_id msg) (JString (waiting L)), SimilaritySearch t 4,
                    SendMessage (chat_id msg) (JString (no_information L)),
                    ErrorLogged e, SendMessage (chat_id msg) (JString (apology L))]), w5)) \<and>
            (similaritySearch sv t 4 w1 = (Inr docs, w2) \<longrightarrow> docs \<noteq> [] \<longrightarrow>
               (invoke sv (prompt L t docs) w2 = (Inl e, w3) \<longrightarrow>
                sendMessage sv (chat_id msg) (JString (apology L)) w3 = (r, w5) \<longrightarrow>
                  on_message L sv msg w0 =
                    ((settle r,
                      [SendMessage (chat_id msg) (JString (waiting L)), SimilaritySearch t 4,
                       Invoke (prompt L t docs),
                       ErrorLogged e, SendMessage (chat_id msg) (JString (apology L))]), w5)) \<and>
               (invoke sv (prompt L t docs) w2 = (Inr answer, w3) \<longrightarrow>
                  (answer_is_empty answer \<longrightarrow>
                   sendMessage sv (chat_id msg) (JString (apology L)) w3 = (r, w5) \<longrightarrow>
                     on_message L sv msg w0 =
                       ((settle r,
                         [SendMessage (chat_id msg) (JString (waiting L)), SimilaritySearch t 4,
                          Invoke (prompt L t docs), ErrorLogged ModelResponseEmpty,
                          SendMessage (chat_id msg) (JString (apology L))]), w5)) \<and>
                  (\<not> answer_is_empty answer \<longrightarrow>
                   sendMessage sv (chat_id msg) answer w3 = (Inl e, w4) \<longrightarrow>
                   sendMessage sv (chat_id msg) (JString (apology L)) w4 = (r, w5) \<longrightarrow>
                     on_message L sv msg w0 =
                       ((settle r,
                         [SendMessage (chat_id msg) (JString (waiting L)), SimilaritySearch t 4,
                          Invoke (prompt L t docs), SendMessage (chat_id msg) answer,
                          ErrorLogged e, SendMessage (chat_id msg) (JString (apology L))]),
                        w5))))) \<and>
         (alive s \<longrightarrow>
            (on_message L sv msg (world s) = ((Rejected e, ev), w') \<longrightarrow>
               deliver L sv msg s =
                 s\<lparr>world := w', journal := journal s @ ev @ [UnhandledRejectionLogged e]\<rparr>) \<and>
            (on_message L sv msg (world s) = ((Fulfilled, ev), w') \<longrightarrow>
               deliver L sv msg s = s\<lparr>world := w', journal := journal s @ ev\<rparr>)) \<and>
         alive (deliver L sv msg s) = alive s \<and>
         (alive s \<longrightarrow> close (world s) = (Inr (), w') \<longrightarrow> \<not> alive (SIGINT close s))"
  (is "?before \<and> ?guarded \<and> ?listener \<and> ?lives \<and> ?interrupt")
proof -
  have a: ?before and b: ?guarded
    by (simp_all add: on_message_question [OF assms] answer_question_def try_block_def)
  have c: ?listener
    by (simp add: deliver_def unhandledRejection_def)
  have d: ?lives
    by (simp add: deliver_def unhandledRejection_def split: prod.splits settled.splits)
  have e: ?interrupt
    by (simp add: SIGINT_def)
  show ?thesis
    by (rule conjI [OF a conjI [OF b conjI [OF c conjI [OF d e]]]])
qed

theorem guarded_exception_becomes_apology_witness:
  "on_message chatbot_es (failing_once 1 (Inr [X_is_a_thing]) (Inr (JString (lit ''X is a thing.''))))
     what_is_X 0 =
     ((Fulfilled,
       [SendMessage 7 (JString (waiting chatbot_es)), SimilaritySearch (lit ''What is X?'') 4,
        Invoke (prompt chatbot_es (lit ''What is X?'') [X_is_a_thing]),
        SendMessage 7 (JString (lit ''X is a thing.'')),
        ErrorLogged (Thrown ''ETELEGRAM''), SendMessage 7 (JString (apology chatbot_es))]), 3) \<and>
   deliver chatbot_es (failing_once 1 (Inr [X_is_a_thing]) (Inr (JString (lit ''X is a thing.''))))
     what_is_X \<lparr>world = 0, journal = [], alive = True\<rparr> =
     \<lparr>world = 3, journal =
       [SendMessage 7 (JString (waiting chatbot_es)), SimilaritySearch (lit ''What is X?'') 4,
        Invoke (prompt chatbot_es (lit ''What is X?'') [X_is_a_thing]),
        SendMessage 7 (JString (lit ''X is a thing.'')),
        ErrorLogged (Thrown ''ETELEGRAM''), SendMessage 7 (JString (apology chatbot_es))],
      alive = True\<rparr>"
proof -
  let ?sv = "failing_once 1 (Inr [X_is_a_thing]) (Inr (JString (lit ''X is a thing.'')))"
  have calls:
    "sendMessage ?sv 7 (JString (waiting chatbot_es)) 0 = (Inr (), 1)"
    "similaritySearch ?sv (lit ''What is X?'') 4 1 = (Inr [X_is_a_thing], 1)"
    "invoke ?sv (prompt chatbot_es (lit ''What is X?'') [X_is_a_thing]) 1 =
       (Inr (JString (lit ''X is a thing.'')), 1)"
    "sendMessage ?sv 7 (JString (lit ''X is a thing.'')) 1 = (Inl (Thrown ''ETELEGRAM''), 2)"
    "sendMessage ?sv 7 (JString (apology chatbot_es)) 2 = (Inr (), 3)"
    by (simp_all add: failing_once_simps numeral_2_eq_2 numeral_3_eq_3)
  have ne: "[X_is_a_thing] \<noteq> []"
    "\<not> answer_is_empty (JString (lit ''X is a thing.''))"
    by (simp_all add: answer_is_empty_def trim_def lit_def is_whitespace_def)
  note run = guarded_exception_becomes_apology [OF what_is_X_question(1-3),
      where sv = ?sv and L = chatbot_es and ?w0.0 = 0 and ?w1.0 = 1 and ?w2.0 = 1
      and ?w3.0 = 1 and ?w4.0 = 2 and ?w5.0 = 3 and e = "Thrown ''ETELEGRAM''"
      and r = "Inr ()" and docs = "[X_is_a_thing]"
      and answer = "JString (lit ''X is a thing.'')"
      and s = "\<lparr>world = 0, journal = [], alive = True\<rparr>" and w' = 3
      and ev = "[SendMessage 7 (JString (waiting chatbot_es)),
        SimilaritySearch (lit ''What is X?'') 4,
        Invoke (prompt chatbot_es (lit ''What is X?'') [X_is_a_thing]),
        SendMessage 7 (JString (lit ''X is a thing.'')),
        ErrorLogged (Thrown ''ETELEGRAM''), SendMessage 7 (JString (apology chatbot_es))]"]
  from run have a: "on_message chatbot_es ?sv what_is_X 0 =
     ((Fulfilled,
       [SendMessage 7 (JString (waiting chatbot_es)), SimilaritySearch (lit ''What is X?'') 4,
        Invoke (prompt chatbot_es (lit ''What is X?'') [X_is_a_thing]),
        SendMessage 7 (JString (lit ''X is a thing.'')),
        ErrorLogged (Thrown ''ETELEGRAM''), SendMessage 7 (JString (apology chatbot_es))]), 3)"
    by (simp only: what_is_X_question(4) calls ne settle.simps simp_thms)
  from run a show ?thesis
    by simp
qed

text \<open>
  C1 as stated fails: with Telegram failing from the second call on, the delivery of the
  answer throws, the apology's delivery throws too, and the handler's promise is
  rejected; with Telegram failing from the first call on, the waiting message, which is
  sent before the \<open>try\<close> block, throws and no apology is attempted.
\<close>

theorem failed_delivery_escapes_handler:
  "on_message chatbot_es (scripted 1 (Inr [X_is_a_thing]) (Inr (JString (lit ''X is a thing.''))))
     what_is_X 0 =
     ((Rejected (Thrown ''ETELEGRAM''),
       [SendMessage 7 (JString (waiting chatbot_es)), SimilaritySearch (lit ''What is X?'') 4,
        Invoke (prompt chatbot_es (lit ''What is X?'') [X_is_a_thing]),
        SendMessage 7 (JString (lit ''X is a thing.'')),
        ErrorLogged (Thrown ''ETELEGRAM''), SendMessage 7 (JString (apology chatbot_es))]), 3) \<and>
   on_message chatbot_es (scripted 0 (Inr [X_is_a_thing]) (Inr (JString (lit ''X is a thing.''))))
     what_is_X 0 =
     ((Rejected (Thrown ''ETELEGRAM''), [SendMessage 7 (JString (waiting chatbot_es))]), 1)"
proof -
  have ne: "\<not> answer_is_empty (JString (lit ''X is a thing.''))"
    by (simp add: answer_is_empty_def trim_def lit_def is_whitespace_def)
  show ?thesis
    by (simp add: on_message_question [OF what_is_X_question(1-3)] what_is_X_question(4)
          answer_question_def try_block_def scripted_simps ne numeral_3_eq_3)
qed

text \<open>
  C2, as amended. When the retrieval of a question returns no fragment, the model is
  never invoked, and the call after the retrieval is the fixed no-information message
  to the same chat. When that message is delivered, the handler ends there. When its
  delivery throws, the handler does not end there: the exception is caught, logged,
  and the apology is sent as well.
\<close>

theorem empty_retrieval_skips_generation:
  assumes "map_option trim (msg_text msg) = Some t" "t \<noteq> []" "\<not> startsWith t (lit ''/'')"
    and "sendMessage sv (chat_id msg) (JString (waiting L)) w0 = (Inr (), w1)"
    and "similaritySearch sv t 4 w1 = (Inr [], w2)"
  shows "Invoke p \<notin> set (snd (fst (on_message L sv msg w0))) \<and>
         take 3 (snd (fst (on_message L sv msg w0))) =
           [SendMessage (chat_id msg) (JString (waiting L)), SimilaritySearch t 4,
            SendMessage (chat_id msg) (JString (no_information L))] \<and>
         (sendMessage sv (chat_id msg) (JString (no_information L)) w2 = (Inr (), w3) \<longrightarrow>
            on_message L sv msg w0 =
              ((Fulfilled, [SendMessage (chat_id msg) (JString (waiting L)), SimilaritySearch t 4,
                 SendMessage (chat_id msg) (JString (no_information L))]), w3)) \<and>
         (sendMessage sv (chat_id msg) (JString (no_information L)) w2 = (Inl e, w3) \<longrightarrow>
          sendMessage sv (chat_id msg) (JString (apology L)) w3 = (r, w4) \<longrightarrow>
            on_message L sv msg w0 =
              ((settle r, [SendMessage (chat_id msg) (JString (waiting L)), SimilaritySearch t 4,
                 SendMessage (chat_id msg) (JString (no_information L)),
                 ErrorLogged e, SendMessage (chat_id msg) (JString (apology L))]), w4))"
  using assms(4,5)
  by (auto simp: on_message_question [OF assms(1-3)] answer_question_def try_block_def
           numeral_3_eq_3 split: prod.splits sum.splits)

theorem empty_retrieval_skips_generation_witness:
  "on_message chatbot_es (scripted 9 (Inr []) (Inr (JString (lit ''X is a thing.'')))) what_is_X 0 =
     ((Fulfilled,
       [SendMessage 7 (JString (waiting chatbot_es)), SimilaritySearch (lit ''What is X?'') 4,
        SendMessage 7 (JString (no_information chatbot_es))]), 2)"
proof -
  have a: "sendMessage (scripted 9 (Inr []) (Inr (JString (lit ''X is a thing.''))))
             (chat_id what_is_X) (JString (waiting chatbot_es)) 0 = (Inr (), 1)"
    by (simp add: scripted_simps)
  have b: "similaritySearch (scripted 9 (Inr []) (Inr (JString (lit ''X is a thing.''))))
             (lit ''What is X?'') 4 1 = (Inr [], 1)"
    by (simp add: scripted_simps)
  have c: "sendMessage (scripted 9 (Inr []) (Inr (JString (lit ''X is a thing.''))))
             (chat_id what_is_X) (JString (no_information chatbot_es)) 1 = (Inr (), 2)"
    by (simp add: scripted_simps numeral_2_eq_2)
  from empty_retrieval_skips_generation [OF what_is_X_question(1-3) a b, where ?w3.0 = 2] c
  show ?thesis
    by (simp add: what_is_X_question(4))
qed

text \<open>
  C2 as stated fails: when the delivery of the no-information message throws, the
  handler does not stop there; it logs the exception and sends the apology to the same
  chat.
\<close>

theorem failed_notice_is_followed_by_apology:
  "on_message chatbot_es (failing_once 1 (Inr []) (Inr (JString (lit ''X is a thing.''))))
     what_is_X 0 =
     ((Fulfilled,
       [SendMessage 7 (JString (waiting chatbot_es)), SimilaritySearch (lit ''What is X?'') 4,
        SendMessage 7 (JString (no_information chatbot_es)),
        ErrorLogged (Thrown ''ETELEGRAM''), SendMessage 7 (JString (apology chatbot_es))]), 3)"
  by (simp add: on_message_question [OF what_is_X_question(1-3)] what_is_X_question(4)
        answer_question_def try_block_def failing_once_simps numeral_3_eq_3)

text \<open>
  C8. When the model's answer is missing, null, not a string, or a string of white space
  only (the empty string included), the handler raises its own error instead of sending
  the answer: its calls are the waiting message, the retrieval, the model call and the
  apology, and in both editions the rejected answer is not among the messages sent.
\<close>

theorem empty_answer_is_not_sent:
  assumes "map_option trim (msg_text msg) = Some t" "t \<noteq> []" "\<not> startsWith t (lit ''/'')"
    and "sendMessage sv (chat_id msg) (JString (waiting L)) w0 = (Inr (), w1)"
    and "similaritySearch sv t 4 w1 = (Inr docs, w2)" "docs \<noteq> []"
    and "invoke sv (prompt L t docs) w2 = (Inr answer, w3)"
    and "answer = JUndefined \<or> answer = JNull \<or> \<not> is_string answer \<or>
         (\<exists>s. answer = JString s \<and> (\<forall>c\<in>set s. is_whitespace c))"
  shows "snd (fst (on_message L sv msg w0)) =
           [SendMessage (chat_id msg) (JString (waiting L)), SimilaritySearch t 4,
            Invoke (prompt L t docs), ErrorLogged ModelResponseEmpty,
            SendMessage (chat_id msg) (JString (apology L))] \<and>
         (L = chatbot_es \<or> L = chatbot_en \<longrightarrow>
            SendMessage c answer \<notin> set (snd (fst (on_message L sv msg w0))))"
proof -
  have e: "answer_is_empty answer"
    using assms(8) by (cases answer) (auto simp: answer_is_empty_iff)
  have tr: "snd (fst (on_message L sv msg w0)) =
           [SendMessage (chat_id msg) (JString (waiting L)), SimilaritySearch t 4,
            Invoke (prompt L t docs), ErrorLogged ModelResponseEmpty,
            SendMessage (chat_id msg) (JString (apology L))]"
    using assms(4-7) e
    by (auto simp: on_message_question [OF assms(1-3)] answer_question_def try_block_def
           split: prod.splits sum.splits)
  have nb: "\<not> answer_is_empty (JString (waiting chatbot_es))"
     "\<not> answer_is_empty (JString (apology chatbot_es))"
     "\<not> answer_is_empty (JString (waiting chatbot_en))"
     "\<not> answer_is_empty (JString (apology chatbot_en))"
    by (simp_all add: answer_is_empty_def chatbot_es_def chatbot_en_def trim_def lit_def is_whitespace_def)
  show ?thesis
    using tr e nb by auto
qed

theorem empty_answer_is_not_sent_witness:
  "snd (fst (on_message chatbot_es
       (scripted 9 (Inr [X_is_a_thing]) (Inr (JString (lit ''   '')))) what_is_X 0)) =
     [SendMessage 7 (JString (waiting chatbot_es)), SimilaritySearch (lit ''What is X?'') 4,
      Invoke (prompt chatbot_es (lit ''What is X?'') [X_is_a_thing]),
      ErrorLogged ModelResponseEmpty, SendMessage 7 (JString (apology chatbot_es))] \<and>
   SendMessage 7 (JString (lit ''   '')) \<notin> set (snd (fst (on_message chatbot_es
       (scripted 9 (Inr [X_is_a_thing]) (Inr (JString (lit ''   '')))) what_is_X 0)))"
proof -
  have a: "sendMessage (scripted 9 (Inr [X_is_a_thing]) (Inr (JString (lit ''   ''))))
             (chat_id what_is_X) (JString (waiting chatbot_es)) 0 = (Inr (), 1)"
    by (simp add: scripted_simps)
  have b: "similaritySearch (scripted 9 (Inr [X_is_a_thing]) (Inr (JString (lit ''   ''))))
             (lit ''What is X?'') 4 1 = (Inr [X_is_a_thing], 1)"
    by (simp add: scripted_simps)
  have c: "invoke (scripted 9 (Inr [X_is_a_thing]) (Inr (JString (lit ''   ''))))
             (prompt chatbot_es (lit ''What is X?'') [X_is_a_thing]) 1 = (Inr (JString (lit ''   '')), 1)"
    by (simp add: scripted_simps)
  have d: "JString (lit ''   '') = JUndefined \<or> JString (lit ''   '') = JNull \<or>
           \<not> is_string (JString (lit ''   '')) \<or>
           (\<exists>s. JString (lit ''   '') = JString s \<and> (\<forall>c\<in>set s. is_whitespace c))"
    by (simp add: lit_def is_whitespace_def)
  have e: "[X_is_a_thing] \<noteq> []"
    by simp
  from empty_answer_is_not_sent [OF what_is_X_question(1-3) a b e c d, of 7] show ?thesis
    unfolding what_is_X_question(4) by blast
qed





section \<open>The ingestion run\<close>

lemma scripted_run_simps:
  "axios_get (scripted_run s) url w = (on_get s, w)"
  "createDocuments (scripted_run s) a b c w = (on_split s, w)"
  "new_Pool (scripted_run s) cfg w = (on_new_pool s, w)"
  "pool_query (scripted_run s) q w = (on_query s, w)"
  "initialize (scripted_run s) t w = (on_initialize s, w)"
  "v4 (scripted_run s) w = (decimal w, Suc w)"
  "addDocuments (scripted_run s) ds w = (on_add s, w)"
  "pool_end (scripted_run s) w = (on_end s, w)"
  "idle (scripted_run s) w = (on_idle s, w)"
  "parse_number (scripted_run s) text =
     (case map_of (on_number s) text of Some n \<Rightarrow> n | None \<Rightarrow> NaN)"
  by (simp_all add: scripted_run_def)

lemma process_ends_cases:
  "process_ends x = (0, [TimerFired Watchdog, Exit 0]) \<and> x = WatchdogExpired \<or>
   process_ends x = (0, [SigintLogged, Exit 0]) \<and> x = Signal Sigint \<or>
   (\<exists>reason. process_ends x = (1, [RejectionLogged reason, Exit 1]) \<and>
      x = Signal (UnhandledRejection reason))"
proof (cases x)
  case (Signal s)
  then show ?thesis by (cases s) simp_all
qed simp

lemma on_signal_cases:
  "on_signal s = (0, [SigintLogged, Exit 0]) \<and> s = Sigint \<or>
   (\<exists>reason. on_signal s = (1, [RejectionLogged reason, Exit 1]) \<and> s = UnhandledRejection reason)"
  by (cases s) simp_all

lemma store_documents_shape:
  assumes "store_documents env sv docs w = ((r, ev), w')"
  shows "(ev = [PoolQuery (lit ''SELECT 1'')] \<and> ((\<exists>x. r = Ended x) \<or> (\<exists>e. r = Settled (Inl e)))) \<or>
         (ev = [PoolQuery (lit ''SELECT 1''), Initialize (tableName env)] \<and>
            ((\<exists>x. r = Ended x) \<or> (\<exists>e. r = Settled (Inl e)))) \<or>
         (\<exists>stored. ev = [PoolQuery (lit ''SELECT 1''), Initialize (tableName env),
            AddDocuments stored] \<and>
            ((\<exists>x. r = Ended x) \<or> (\<exists>e. r = Settled (Inl e)) \<or> r = Settled (Inr True)))"
  using assms
  by (auto simp: store_documents_def split: prod.splits awaited.splits sum.splits)

lemma embedAndStore_shape:
  assumes "embedAndStore env sv docs w = ((r, ev), w')"
  shows "(\<exists>e. r = Settled (Inl e) \<and> ev = [StoreErrorLogged e]) \<or>
         (\<exists>body x w1 w2. store_documents env sv docs w1 = ((x, body), w2) \<and>
            ((\<exists>z. x = Ended z \<and> r = Ended z \<and> ev = PoolCreated (pool_config env) # body) \<or>
             (\<exists>y. x = Settled y \<and>
                ((\<exists>z. r = Ended z \<and>
                    ev = PoolCreated (pool_config env) # body @ catch_log y @ [PoolEnd]) \<or>
                 (\<exists>c. r = Settled y \<and>
                    ev = PoolCreated (pool_config env) # body @ catch_log y @
                      PoolEnd # close_log c)))))"
  using assms
  apply (simp add: embedAndStore_def split: prod.splits sum.splits awaited.splits)
  apply (elim disjE conjE exE; (simp; fail)?)
     apply blast+
  done

lemma embedAndStore_events:
  assumes "embedAndStore env sv docs w = ((r, ev), w')"
  shows "TimerFired t \<notin> set ev" "ClearTimeout t \<notin> set ev" "SetTimeout t n \<notin> set ev"
    "MainErrorLogged e \<notin> set ev" "Exit n \<notin> set ev" "Get u \<notin> set ev"
    "CreateDocuments a b c \<notin> set ev" "SigintLogged \<notin> set ev" "RejectionLogged e \<notin> set ev"
    "distinct ev"
    "count_list ev PoolEnd \<le> 1"
    "PoolEnd \<in> set ev \<longrightarrow> PoolCreated (pool_config env) \<in> set ev"
    "PoolCreated cfg \<in> set ev \<longrightarrow>
       cfg = pool_config env \<and> take 2 ev = [PoolCreated cfg, PoolQuery (lit ''SELECT 1'')]"
    "PoolCreated cfg \<in> set ev \<longrightarrow> (\<forall>x. r \<noteq> Ended x) \<longrightarrow> count_list ev PoolEnd = 1"
    "(\<exists>e. r = Settled (Inl e)) \<longleftrightarrow> (\<exists>e. (\<forall>x. r \<noteq> Ended x) \<and> StoreErrorLogged e \<in> set ev)"
proof -
  from embedAndStore_shape [OF assms]
  consider (ctor) e where "r = Settled (Inl e)" "ev = [StoreErrorLogged e]"
    | (cut_body) body z w1 w2 where "store_documents env sv docs w1 = ((Ended z, body), w2)"
        "r = Ended z" "ev = PoolCreated (pool_config env) # body"
    | (cut_end) body y z w1 w2 where "store_documents env sv docs w1 = ((Settled y, body), w2)"
        "r = Ended z" "ev = PoolCreated (pool_config env) # body @ catch_log y @ [PoolEnd]"
    | (closed) body y c w1 w2 where "store_documents env sv docs w1 = ((Settled y, body), w2)"
        "r = Settled y"
        "ev = PoolCreated (pool_config env) # body @ catch_log y @ PoolEnd # close_log c"
    by blast
  then have "TimerFired t \<notin> set ev \<and> ClearTimeout t \<notin> set ev \<and> SetTimeout t n \<notin> set ev \<and>
    MainErrorLogged e \<notin> set ev \<and> Exit n \<notin> set ev \<and> Get u \<notin> set ev \<and>
    CreateDocuments a b c \<notin> set ev \<and> SigintLogged \<notin> set ev \<and> RejectionLogged e \<notin> set ev \<and>
    distinct ev \<and> count_list ev PoolEnd \<le> 1 \<and>
    (PoolEnd \<in> set ev \<longrightarrow> PoolCreated (pool_config env) \<in> set ev) \<and>
    (PoolCreated cfg \<in> set ev \<longrightarrow>
       cfg = pool_config env \<and> take 2 ev = [PoolCreated cfg, PoolQuery (lit ''SELECT 1'')]) \<and>
    (PoolCreated cfg \<in> set ev \<longrightarrow> (\<forall>x. r \<noteq> Ended x) \<longrightarrow> count_list ev PoolEnd = 1) \<and>
    ((\<exists>e. r = Settled (Inl e)) \<longleftrightarrow> (\<exists>e. (\<forall>x. r \<noteq> Ended x) \<and> StoreErrorLogged e \<in> set ev))"
  proof cases
    case ctor
    then show ?thesis by auto
  next
    case cut_body
    from store_documents_shape [OF cut_body(1)] cut_body(2,3) show ?thesis
      by (auto simp: numeral_2_eq_2)
  next
    case cut_end
    from store_documents_shape [OF cut_end(1)] cut_end(2,3) show ?thesis
      by (cases y) (auto simp: numeral_2_eq_2)
  next
    case closed
    from store_documents_shape [OF closed(1)] closed(2,3) show ?thesis
      by (cases y; cases c) (auto simp: numeral_2_eq_2)
  qed
  then show "TimerFired t \<notin> set ev" "ClearTimeout t \<notin> set ev" "SetTimeout t n \<notin> set ev"
    "MainErrorLogged e \<notin> set ev" "Exit n \<notin> set ev" "Get u \<notin> set ev"
    "CreateDocuments a b c \<notin> set ev" "SigintLogged \<notin> set ev" "RejectionLogged e \<notin> set ev"
    "distinct ev"
    "count_list ev PoolEnd \<le> 1"
    "PoolEnd \<in> set ev \<longrightarrow> PoolCreated (pool_config env) \<in> set ev"
    "PoolCreated cfg \<in> set ev \<longrightarrow>
       cfg = pool_config env \<and> take 2 ev = [PoolCreated cfg, PoolQuery (lit ''SELECT 1'')]"
    "PoolCreated cfg \<in> set ev \<longrightarrow> (\<forall>x. r \<noteq> Ended x) \<longrightarrow> count_list ev PoolEnd = 1"
    "(\<exists>e. r = Settled (Inl e)) \<longleftrightarrow> (\<exists>e. (\<forall>x. r \<noteq> Ended x) \<and> StoreErrorLogged e \<in> set ev)"
    by blast+
qed

lemma launcher_cases:
  obtains
    (get_ended) x w1 where "axios_get sv url w = (Ended x, w1)"
      "launcher url env sv w =
         ((fst (process_ends x), [SetTimeout Watchdog 30000, Get url] @ snd (process_ends x)), w1)"
  | (get_failed) e w1 where "axios_get sv url w = (Settled (Inl e), w1)"
      "launcher url env sv w =
         ((1, [SetTimeout Watchdog 30000, Get url, MainErrorLogged e, ClearTimeout Watchdog,
               Exit 1]), w1)"
  | (split_ended) rawText w1 x w2 where "axios_get sv url w = (Settled (Inr rawText), w1)"
      "createDocuments sv (chunkSize sv env) (chunkOverlap sv env) rawText w1 = (Ended x, w2)"
      "launcher url env sv w =
         ((fst (process_ends x),
           [SetTimeout Watchdog 30000, Get url,
            CreateDocuments (chunkSize sv env) (chunkOverlap sv env) rawText] @
           snd (process_ends x)), w2)"
  | (split_failed) rawText w1 e w2 where "axios_get sv url w = (Settled (Inr rawText), w1)"
      "createDocuments sv (chunkSize sv env) (chunkOverlap sv env) rawText w1 =
         (Settled (Inl e), w2)"
      "launcher url env sv w =
         ((1, [SetTimeout Watchdog 30000, Get url,
               CreateDocuments (chunkSize sv env) (chunkOverlap sv env) rawText,
               MainErrorLogged e, ClearTimeout Watchdog, Exit 1]), w2)"
  | (store_ended) rawText w1 docs w2 x ev w3 where
      "axios_get sv url w = (Settled (Inr rawText), w1)"
      "createDocuments sv (chunkSize sv env) (chunkOverlap sv env) rawText w1 =
         (Settled (Inr docs), w2)"
      "embedAndStore env sv docs w2 = ((Ended x, ev), w3)"
      "launcher url env sv w =
         ((fst (process_ends x),
           [SetTimeout Watchdog 30000, Get url,
            CreateDocuments (chunkSize sv env) (chunkOverlap sv env) rawText] @ ev @
           snd (process_ends x)), w3)"
  | (store_failed) rawText w1 docs w2 e ev w3 where
      "axios_get sv url w = (Settled (Inr rawText), w1)"
      "createDocuments sv (chunkSize sv env) (chunkOverlap sv env) rawText w1 =
         (Settled (Inr docs), w2)"
      "embedAndStore env sv docs w2 = ((Settled (Inl e), ev), w3)"
      "launcher url env sv w =
         ((1, [SetTimeout Watchdog 30000, Get url,
               CreateDocuments (chunkSize sv env) (chunkOverlap sv env) rawText] @ ev @
              [MainErrorLogged e, ClearTimeout Watchdog, Exit 1]), w3)"
  | (completed) rawText w1 docs w2 b ev w3 w4 where
      "axios_get sv url w = (Settled (Inr rawText), w1)"
      "createDocuments sv (chunkSize sv env) (chunkOverlap sv env) rawText w1 =
         (Settled (Inr docs), w2)"
      "embedAndStore env sv docs w2 = ((Settled (Inr b), ev), w3)"
      "idle sv w3 = (None, w4)"
      "launcher url env sv w =
         ((0, [SetTimeout Watchdog 30000, Get url,
               CreateDocuments (chunkSize sv env) (chunkOverlap sv env) rawText] @ ev @
              [ClearTimeout Watchdog, SetTimeout ExitDelay 500, TimerFired ExitDelay,
               Exit 0]), w4)"
  | (signalled) rawText w1 docs w2 b ev w3 s w4 where
      "axios_get sv url w = (Settled (Inr rawText), w1)"
      "createDocuments sv (chunkSize sv env) (chunkOverlap sv env) rawText w1 =
         (Settled (Inr docs), w2)"
      "embedAndStore env sv docs w2 = ((Settled (Inr b), ev), w3)"
      "idle sv w3 = (Some s, w4)"
      "launcher url env sv w =
         ((fst (on_signal s),
           [SetTimeout Watchdog 30000, Get url,
            CreateDocuments (chunkSize sv env) (chunkOverlap sv env) rawText] @ ev @
           [ClearTimeout Watchdog, SetTimeout ExitDelay 500] @ snd (on_signal s)), w4)"
proof (cases "axios_get sv url w")
  case (Pair g w1)
  show ?thesis
  proof (cases g)
    case (Ended x)
    with Pair show ?thesis by (intro get_ended [of x w1]) (simp_all add: launcher_def)
  next
    case (Settled y)
    show ?thesis
    proof (cases y)
      case (Inl e)
      with Pair Settled show ?thesis by (intro get_failed [of e w1]) (simp_all add: launcher_def)
    next
      case (Inr rawText)
      note g = Pair [unfolded Settled Inr]
      obtain s w2 where s: "createDocuments sv (chunkSize sv env) (chunkOverlap sv env) rawText w1 = (s, w2)"
        by (cases "createDocuments sv (chunkSize sv env) (chunkOverlap sv env) rawText w1")
      show ?thesis
      proof (cases s)
        case (Ended x)
        with g s show ?thesis
          by (intro split_ended [of rawText w1 x w2]) (simp_all add: launcher_def)
      next
        case (Settled y)
        show ?thesis
        proof (cases y)
          case (Inl e)
          with g s Settled show ?thesis
            by (intro split_failed [of rawText w1 e w2]) (simp_all add: launcher_def)
        next
          case (Inr docs)
          note s' = s [unfolded Settled Inr]
          obtain r ev w3 where r: "embedAndStore env sv docs w2 = ((r, ev), w3)"
            by (cases "embedAndStore env sv docs w2") auto
          show ?thesis
          proof (cases r)
            case (Ended x)
            with g s' r show ?thesis
              by (intro store_ended [of rawText w1 docs w2 x ev w3]) (simp_all add: launcher_def)
          next
            case (Settled z)
            show ?thesis
            proof (cases z)
              case (Inl e)
              with g s' r Settled show ?thesis
                by (intro store_failed [of rawText w1 docs w2 e ev w3]) (simp_all add: launcher_def)
            next
              case (Inr b)
              obtain i w4 where i: "idle sv w3 = (i, w4)"
                by (cases "idle sv w3")
              show ?thesis
              proof (cases i)
                case None
                with g s' r Settled Inr i show ?thesis
                  by (intro completed [of rawText w1 docs w2 b ev w3 w4]) (simp_all add: launcher_def)
              next
                case (Some sg)
                with g s' r Settled Inr i show ?thesis
                  by (intro signalled [of rawText w1 docs w2 b ev w3 sg w4])
                    (simp_all add: launcher_def)
              qed
            qed
          qed
        qed
      qed
    qed
  qed
qed


lemma run_endings:
  "take 1 (snd (fst (launcher url env sv w))) = [SetTimeout Watchdog 30000] \<and>
   (TimerFired Watchdog \<in> set (snd (fst (launcher url env sv w))) \<longrightarrow>
      fst (fst (launcher url env sv w)) = 0 \<and>
      (\<exists>pre. snd (fst (launcher url env sv w)) = pre @ [TimerFired Watchdog, Exit 0]) \<and>
      ClearTimeout Watchdog \<notin> set (snd (fst (launcher url env sv w)))) \<and>
   (SigintLogged \<in> set (snd (fst (launcher url env sv w))) \<longrightarrow>
      fst (fst (launcher url env sv w)) = 0 \<and>
      (\<exists>pre. snd (fst (launcher url env sv w)) = pre @ [SigintLogged, Exit 0])) \<and>
   (RejectionLogged reason \<in> set (snd (fst (launcher url env sv w))) \<longrightarrow>
      fst (fst (launcher url env sv w)) = 1 \<and>
      (\<exists>pre. snd (fst (launcher url env sv w)) = pre @ [RejectionLogged reason, Exit 1])) \<and>
   (TimerFired Watchdog \<notin> set (snd (fst (launcher url env sv w))) \<longrightarrow>
    SigintLogged \<notin> set (snd (fst (launcher url env sv w))) \<longrightarrow>
    (\<forall>reason. RejectionLogged reason \<notin> set (snd (fst (launcher url env sv w)))) \<longrightarrow>
      ClearTimeout Watchdog \<in> set (snd (fst (launcher url env sv w))) \<and>
      fst (fst (launcher url env sv w)) =
        (if \<exists>e. MainErrorLogged e \<in> set (snd (fst (launcher url env sv w))) then 1 else 0))"
proof (cases rule: launcher_cases [of sv url w env])
  case (get_ended x w1)
  with process_ends_cases [of x] show ?thesis by auto
next
  case (get_failed e w1)
  then show ?thesis by auto
next
  case (split_ended rawText w1 x w2)
  with process_ends_cases [of x] show ?thesis by auto
next
  case (split_failed rawText w1 e w2)
  then show ?thesis by auto
next
  case (store_ended rawText w1 docs w2 x ev w3)
  from embedAndStore_events(1-9) [OF store_ended(3)] store_ended(4) process_ends_cases [of x]
  show ?thesis by auto
next
  case (store_failed rawText w1 docs w2 e ev w3)
  from embedAndStore_events(1-9) [OF store_failed(3)] store_failed(4)
  show ?thesis by auto
next
  case (completed rawText w1 docs w2 b ev w3 w4)
  from embedAndStore_events(1-9) [OF completed(3)] completed(5)
  show ?thesis by auto
next
  case (signalled rawText w1 docs w2 b ev w3 s w4)
  from embedAndStore_events(1-9) [OF signalled(3)] signalled(5) on_signal_cases [of s]
  show ?thesis by auto
qed

text \<open>The pool in a run.\<close>

lemma ending_events [simp]:
  "PoolEnd \<notin> set (close_log c)" "PoolCreated cfg \<notin> set (close_log c)"
  "count_list (close_log c) PoolEnd = 0"
  "PoolEnd \<notin> set (snd (process_ends x))" "PoolCreated cfg \<notin> set (snd (process_ends x))"
  "count_list (snd (process_ends x)) PoolEnd = 0"
  "PoolEnd \<notin> set (snd (on_signal s))" "PoolCreated cfg \<notin> set (snd (on_signal s))"
  "count_list (snd (on_signal s)) PoolEnd = 0"
  using process_ends_cases [of x] on_signal_cases [of s]
  by (cases c; auto)+

lemma take_five:
  assumes "take 2 ev = [a, b]"
  shows "take 5 (x # y # z # ev @ rest) = [x, y, z, a, b]"
proof -
  from assms obtain ev' where "ev = a # b # ev'"
    by (cases ev; cases "tl ev") (auto simp: numeral_2_eq_2)
  then show ?thesis
    by (simp add: numeral_eq_Suc)
qed

lemma pool_events_of_run:
  assumes es: "embedAndStore env sv docs w2 = ((r, ev), w3)"
    and rest: "PoolEnd \<notin> set rest" "PoolCreated cfg \<notin> set rest"
    and tr: "tr = SetTimeout Watchdog 30000 # Get url # CreateDocuments a b c # ev @ rest"
  shows "count_list tr PoolEnd \<le> 1 \<and>
    (PoolEnd \<in> set tr \<longrightarrow> PoolCreated (pool_config env) \<in> set tr) \<and>
    (PoolCreated cfg \<in> set tr \<longrightarrow> cfg = pool_config env \<and>
       (\<exists>rawText. take 5 tr = [SetTimeout Watchdog 30000, Get url, CreateDocuments a b rawText,
         PoolCreated cfg, PoolQuery (lit ''SELECT 1'')]))"
proof -
  note ev = embedAndStore_events(11-13) [OF es]
  have n: "count_list tr PoolEnd = count_list ev PoolEnd"
    using rest(1) by (simp add: tr)
  have e: "PoolEnd \<in> set tr \<longleftrightarrow> PoolEnd \<in> set ev"
    using rest(1) by (auto simp: tr)
  have c: "PoolCreated cfg \<in> set tr \<longleftrightarrow> PoolCreated cfg \<in> set ev"
    using rest(2) by (auto simp: tr)
  have c': "PoolCreated (pool_config env) \<in> set ev \<Longrightarrow> PoolCreated (pool_config env) \<in> set tr"
    by (simp add: tr)
  have t: "take 5 tr = [SetTimeout Watchdog 30000, Get url, CreateDocuments a b c,
      PoolCreated cfg, PoolQuery (lit ''SELECT 1'')]" if "PoolCreated cfg \<in> set ev"
    unfolding tr using ev(3) [of cfg] that by (intro take_five) blast
  show ?thesis
    unfolding n e c using ev(1,2) ev(3) [of cfg] c' t by blast
qed

lemma pool_in_run:
  "count_list (snd (fst (launcher url env sv w))) PoolEnd \<le> 1 \<and>
   (PoolEnd \<in> set (snd (fst (launcher url env sv w))) \<longrightarrow>
      PoolCreated (pool_config env) \<in> set (snd (fst (launcher url env sv w)))) \<and>
   (PoolCreated cfg \<in> set (snd (fst (launcher url env sv w))) \<longrightarrow>
      cfg = pool_config env \<and>
      (\<exists>rawText. take 5 (snd (fst (launcher url env sv w))) =
         [SetTimeout Watchdog 30000, Get url,
          CreateDocuments (chunkSize sv env) (chunkOverlap sv env) rawText,
          PoolCreated cfg, PoolQuery (lit ''SELECT 1'')]))"
proof (cases rule: launcher_cases [of sv url w env])
  case (get_ended x w1)
  with process_ends_cases [of x] show ?thesis by auto
next
  case (get_failed e w1)
  then show ?thesis by simp
next
  case (split_ended rawText w1 x w2)
  with process_ends_cases [of x] show ?thesis by auto
next
  case (split_failed rawText w1 e w2)
  then show ?thesis by simp
next
  case (store_ended rawText w1 docs w2 x ev w3)
  show ?thesis
    unfolding store_ended(4) fst_conv snd_conv
    by (rule pool_events_of_run [OF store_ended(3)]) simp_all
next
  case (store_failed rawText w1 docs w2 e ev w3)
  show ?thesis
    unfolding store_failed(4) fst_conv snd_conv
    by (rule pool_events_of_run [OF store_failed(3)]) simp_all
next
  case (completed rawText w1 docs w2 b ev w3 w4)
  show ?thesis
    unfolding completed(5) fst_conv snd_conv
    by (rule pool_events_of_run [OF completed(3)]) simp_all
next
  case (signalled rawText w1 docs w2 b ev w3 s w4)
  show ?thesis
    unfolding signalled(5) fst_conv snd_conv
    by (rule pool_events_of_run [OF signalled(3)]) simp_all
qed

lemma pool_acquired:
  assumes g: "axios_get sv url w = (Settled (Inr rawText), w1)"
    and s: "createDocuments sv (chunkSize sv env) (chunkOverlap sv env) rawText w1 =
      (Settled (Inr docs), w2)"
    and p: "new_Pool sv (pool_config env) w2 = (Inr (), w3)"
  shows "take 5 (snd (fst (launcher url env sv w))) =
     [SetTimeout Watchdog 30000, Get url,
      CreateDocuments (chunkSize sv env) (chunkOverlap sv env) rawText,
      PoolCreated (pool_config env), PoolQuery (lit ''SELECT 1'')]"
proof -
  obtain r ev w' where es: "embedAndStore env sv docs w2 = ((r, ev), w')"
    by (cases "embedAndStore env sv docs w2") auto
  have "PoolCreated (pool_config env) \<in> set ev"
    using es p by (auto simp: embedAndStore_def split: prod.splits awaited.splits)
  with embedAndStore_events(13) [OF es, of "pool_config env"]
  have "take 2 ev = [PoolCreated (pool_config env), PoolQuery (lit ''SELECT 1'')]"
    by simp
  then have "take 5 (SetTimeout Watchdog 30000 # Get url #
      CreateDocuments (chunkSize sv env) (chunkOverlap sv env) rawText # ev @ rest) =
     [SetTimeout Watchdog 30000, Get url,
      CreateDocuments (chunkSize sv env) (chunkOverlap sv env) rawText,
      PoolCreated (pool_config env), PoolQuery (lit ''SELECT 1'')]" for rest
    by (rule take_five)
  then show ?thesis
    using g s es
    by (cases r; cases "idle sv w'")
      (auto simp: launcher_def split: sum.splits option.splits)
qed

text \<open>What the run reads from the environment, and when.\<close>

lemma take_six:
  assumes "take 3 ev = [a, b, c]"
  shows "take 6 (x # y # z # ev @ rest) = [x, y, z, a, b, c]"
proof -
  from assms obtain ev' where "ev = a # b # c # ev'"
    by (cases ev; cases "tl ev"; cases "tl (tl ev)") (auto simp: numeral_3_eq_3)
  then show ?thesis
    by (simp add: numeral_eq_Suc)
qed

lemma source_requested:
  "take 2 (snd (fst (launcher url env sv w))) = [SetTimeout Watchdog 30000, Get url]"
  by (cases rule: launcher_cases [of sv url w env]) (simp_all add: numeral_2_eq_2)

lemma chunks_requested:
  assumes "axios_get sv url w = (Settled (Inr rawText), w1)"
  shows "take 3 (snd (fst (launcher url env sv w))) =
     [SetTimeout Watchdog 30000, Get url,
      CreateDocuments (chunkSize sv env) (chunkOverlap sv env) rawText]"
  using assms
  by (cases rule: launcher_cases [of sv url w env]) (simp_all add: numeral_3_eq_3)

lemma table_initialized:
  assumes g: "axios_get sv url w = (Settled (Inr rawText), w1)"
    and s: "createDocuments sv (chunkSize sv env) (chunkOverlap sv env) rawText w1 =
      (Settled (Inr docs), w2)"
    and p: "new_Pool sv (pool_config env) w2 = (Inr (), w3)"
    and q: "pool_query sv (lit ''SELECT 1'') w3 = (Settled (Inr ()), w4)"
  shows "take 6 (snd (fst (launcher url env sv w))) =
     [SetTimeout Watchdog 30000, Get url,
      CreateDocuments (chunkSize sv env) (chunkOverlap sv env) rawText,
      PoolCreated (pool_config env), PoolQuery (lit ''SELECT 1''),
      Initialize (tableName env)]"
proof -
  obtain r ev w' where es: "embedAndStore env sv docs w2 = ((r, ev), w')"
    by (cases "embedAndStore env sv docs w2") auto
  have "take 3 ev = [PoolCreated (pool_config env), PoolQuery (lit ''SELECT 1''),
      Initialize (tableName env)]"
    using es p q
    by (auto simp: embedAndStore_def store_documents_def numeral_3_eq_3
          split: prod.splits awaited.splits sum.splits)
  then have "take 6 (SetTimeout Watchdog 30000 # Get url #
      CreateDocuments (chunkSize sv env) (chunkOverlap sv env) rawText # ev @ rest) =
     [SetTimeout Watchdog 30000, Get url,
      CreateDocuments (chunkSize sv env) (chunkOverlap sv env) rawText,
      PoolCreated (pool_config env), PoolQuery (lit ''SELECT 1''),
      Initialize (tableName env)]" for rest
    by (rule take_six)
  then show ?thesis
    using g s es
    by (cases r; cases "idle sv w'")
      (auto simp: launcher_def split: sum.splits option.splits)
qed

lemma unread_variable:
  assumes "k \<notin> {''CHUNK_SIZE'', ''CHUNK_OVERLAP'', ''PGHOST'', ''PGPORT'', ''PGUSER'',
    ''PGPASSWORD'', ''PGDATABASE'', ''TABLE_NAME''}"
  shows "launcher url (env(k := v)) sv w = launcher url env sv w"
proof -
  from assms have eq: "chunkSize sv (env(k := v)) = chunkSize sv env"
    "chunkOverlap sv (env(k := v)) = chunkOverlap sv env"
    "pool_config (env(k := v)) = pool_config env"
    "tableName (env(k := v)) = tableName env"
    by (auto simp: chunkSize_def chunkOverlap_def pool_config_def tableName_def)
  show ?thesis
    unfolding launcher_def embedAndStore_def store_documents_def eq ..
qed

text \<open>Concrete runs.\<close>

lemma config_values:
  "bare_env ''URL_REMOTE_TEXT'' = Some (lit ''https://example.com/your_text_source.txt'')"
  "bare_env ''TABLE_NAME'' = None" "bare_env ''CHUNK_SIZE'' = None"
  "bare_env ''CHUNK_OVERLAP'' = None"
  "full_env ''URL_REMOTE_TEXT'' = Some (lit ''https://example.com/your_text_source.txt'')"
  "chunkSize sv bare_env = Finite 1000"
  "chunkOverlap sv bare_env = Finite 100"
  "tableName bare_env = lit ''documentos_rag''"
  "chunkSize (scripted_run all_ok) full_env = Finite 1000"
  "chunkOverlap (scripted_run all_ok) full_env = Finite 100"
  "chunkSize (scripted_run (all_ok\<lparr>on_get := g\<rparr>)) full_env = Finite 1000"
  "chunkOverlap (scripted_run (all_ok\<lparr>on_get := g\<rparr>)) full_env = Finite 100"
  "chunkSize (scripted_run (all_ok\<lparr>on_add := a\<rparr>)) full_env = Finite 1000"
  "chunkOverlap (scripted_run (all_ok\<lparr>on_add := a\<rparr>)) full_env = Finite 100"
  "chunkSize (scripted_run (all_ok\<lparr>on_add := a, on_end := c\<rparr>)) full_env = Finite 1000"
  "chunkOverlap (scripted_run (all_ok\<lparr>on_add := a, on_end := c\<rparr>)) full_env = Finite 100"
  "tableName full_env = lit ''documentos_rag''"
  "chunkSize sv Map.empty = Finite 1000"
  "chunkOverlap sv Map.empty = Finite 100"
  "tableName Map.empty = lit ''documentos_rag''"
  by (simp_all add: bare_env_def full_env_def chunkSize_def chunkOverlap_def tableName_def
        Number_def string_or_def scripted_run_def all_ok_def lit_def)

lemma first_uuid: "decimal 0 = lit ''0''"
  by (simp add: decimal.simps digit_def lit_def)

lemmas run_simps =
  main_def launcher_def embedAndStore_def store_documents_def scripted_run_simps(1-9)
  fetch_hangs_def fetch_fails_def store_fails_close_hangs_def
  config_values first_uuid

lemma all_ok_simps:
  "on_get all_ok = Settled (Inr (lit ''Hello world. This is a test.''))"
  "on_split all_ok = Settled (Inr [\<lparr>pageContent = lit ''Hello world.''\<rparr>])"
  "on_new_pool all_ok = Inr ()" "on_query all_ok = Settled (Inr ())"
  "on_initialize all_ok = Settled (Inr ())" "on_add all_ok = Settled (Inr ())"
  "on_end all_ok = Settled (Inr ())" "on_idle all_ok = None"
  by (simp_all add: all_ok_def)

lemma run_fetch_hangs: "main full_env (scripted_run fetch_hangs) 0 =
     ((0, [SetTimeout Watchdog 30000,
           Get (Some (lit ''https://example.com/your_text_source.txt'')),
           TimerFired Watchdog, Exit 0]), 0)"
  by (simp add: run_simps all_ok_simps)

lemma run_fetch_fails: "main full_env (scripted_run fetch_fails) 0 =
     ((1, [SetTimeout Watchdog 30000,
           Get (Some (lit ''https://example.com/your_text_source.txt'')),
           MainErrorLogged (Thrown ''ENOTFOUND''), ClearTimeout Watchdog, Exit 1]), 0)"
  by (simp add: run_simps all_ok_simps)

lemma run_all_ok: "main bare_env (scripted_run all_ok) 0 =
     ((0, [SetTimeout Watchdog 30000,
           Get (Some (lit ''https://example.com/your_text_source.txt'')),
           CreateDocuments (Finite 1000) (Finite 100) (lit ''Hello world. This is a test.''),
           PoolCreated (pool_config bare_env), PoolQuery (lit ''SELECT 1''),
           Initialize (lit ''documentos_rag''),
           AddDocuments [\<lparr>pageContent = lit ''Hello world.'',
             metadata = \<lparr>source = lit ''truora-blog'', uuid = lit ''0''\<rparr>\<rparr>],
           PoolEnd, ClearTimeout Watchdog, SetTimeout ExitDelay 500, TimerFired ExitDelay,
           Exit 0]), 1)"
  by (simp add: run_simps all_ok_simps)


lemma run_nothing_configured: "main Map.empty (scripted_run fetch_fails) 0 =
     ((1, [SetTimeout Watchdog 30000, Get None,
           MainErrorLogged (Thrown ''ENOTFOUND''), ClearTimeout Watchdog, Exit 1]), 0)"
  by (simp add: run_simps all_ok_simps)

text \<open>The calls of the scripted runs, one by one.\<close>

lemma all_ok_calls:
  "axios_get (scripted_run all_ok) url w = (Settled (Inr (lit ''Hello world. This is a test.'')), w)"
  "createDocuments (scripted_run all_ok) a b t w = (Settled (Inr [\<lparr>pageContent = lit ''Hello world.''\<rparr>]), w)"
  "new_Pool (scripted_run all_ok) cfg w = (Inr (), w)"
  "pool_query (scripted_run all_ok) q w = (Settled (Inr ()), w)"
  "initialize (scripted_run all_ok) n w = (Settled (Inr ()), w)"
  "with_metadata (scripted_run all_ok) [\<lparr>pageContent = lit ''Hello world.''\<rparr>] 0 =
     ([\<lparr>pageContent = lit ''Hello world.'',
        metadata = \<lparr>source = lit ''truora-blog'', uuid = lit ''0''\<rparr>\<rparr>], 1)"
  "addDocuments (scripted_run all_ok) ds w = (Settled (Inr ()), w)"
  "pool_end (scripted_run all_ok) w = (Settled (Inr ()), w)"
  "idle (scripted_run all_ok) w = (None, w)"
  by (simp_all add: scripted_run_simps(1-9) all_ok_simps first_uuid)


lemma store_fails_close_hangs_calls:
  "axios_get (scripted_run store_fails_close_hangs) url w = (Settled (Inr (lit ''Hello world. This is a test.'')), w)"
  "createDocuments (scripted_run store_fails_close_hangs) a b t w = (Settled (Inr [\<lparr>pageContent = lit ''Hello world.''\<rparr>]), w)"
  "new_Pool (scripted_run store_fails_close_hangs) cfg w = (Inr (), w)"
  "pool_query (scripted_run store_fails_close_hangs) q w = (Settled (Inr ()), w)"
  "initialize (scripted_run store_fails_close_hangs) n w = (Settled (Inr ()), w)"
  "with_metadata (scripted_run store_fails_close_hangs) [\<lparr>pageContent = lit ''Hello world.''\<rparr>] 0 =
     ([\<lparr>pageContent = lit ''Hello world.'',
        metadata = \<lparr>source = lit ''truora-blog'', uuid = lit ''0''\<rparr>\<rparr>], 1)"
  "addDocuments (scripted_run store_fails_close_hangs) ds w = (Settled (Inl (Thrown ''ECONNRESET'')), w)"
  "pool_end (scripted_run store_fails_close_hangs) w = (Ended WatchdogExpired, w)"
  by (simp_all add: scripted_run_simps(1-9) store_fails_close_hangs_def all_ok_simps first_uuid)

lemma interrupted_while_storing_calls:
  "axios_get (scripted_run interrupted_while_storing) url w = (Settled (Inr (lit ''Hello world. This is a test.'')), w)"
  "createDocuments (scripted_run interrupted_while_storing) a b t w = (Settled (Inr [\<lparr>pageContent = lit ''Hello world.''\<rparr>]), w)"
  "new_Pool (scripted_run interrupted_while_storing) cfg w = (Inr (), w)"
  "pool_query (scripted_run interrupted_while_storing) q w = (Settled (Inr ()), w)"
  "initialize (scripted_run interrupted_while_storing) n w = (Settled (Inr ()), w)"
  "with_metadata (scripted_run interrupted_while_storing) [\<lparr>pageContent = lit ''Hello world.''\<rparr>] 0 =
     ([\<lparr>pageContent = lit ''Hello world.'',
        metadata = \<lparr>source = lit ''truora-blog'', uuid = lit ''0''\<rparr>\<rparr>], 1)"
  "addDocuments (scripted_run interrupted_while_storing) ds w = (Ended (Signal Sigint), w)"
  by (simp_all add: scripted_run_simps(1-9) interrupted_while_storing_def all_ok_simps first_uuid)

text \<open>
  C3, as amended. The safety timer of 30000 ms is set first. When it expires while the
  launcher waits for a call (the download, the splitting, the liveness query, the
  initialisation of the store, the insertion, or \<open>pool.end()\<close> after any of the last
  three has settled), its callback ends the process with exit status 0, not with a
  non-zero status, and the timer has not been cleared. When a stage has failed (the
  download, the splitting, the pool's constructor, or a call on the pool once
  \<open>pool.end()\<close> has settled) or the pipeline has completed, the timer is cleared; a
  cleared timer does not fire.
\<close>

theorem watchdog_exits_with_status_zero:
  "take 1 (snd (fst (launcher url env sv w))) = [SetTimeout Watchdog 30000] \<and>
   (TimerFired Watchdog \<in> set (snd (fst (launcher url env sv w))) \<longrightarrow>
      fst (fst (launcher url env sv w)) = 0 \<and>
      (\<exists>pre. snd (fst (launcher url env sv w)) = pre @ [TimerFired Watchdog, Exit 0]) \<and>
      ClearTimeout Watchdog \<notin> set (snd (fst (launcher url env sv w)))) \<and>
   (ClearTimeout Watchdog \<in> set (snd (fst (launcher url env sv w))) \<longrightarrow>
      TimerFired Watchdog \<notin> set (snd (fst (launcher url env sv w)))) \<and>
   (axios_get sv url w = (Ended WatchdogExpired, w1) \<longrightarrow>
      TimerFired Watchdog \<in> set (snd (fst (launcher url env sv w)))) \<and>
   (axios_get sv url w = (Settled (Inl e), w1) \<longrightarrow>
      ClearTimeout Watchdog \<in> set (snd (fst (launcher url env sv w)))) \<and>
   (axios_get sv url w = (Settled (Inr rawText), w1) \<longrightarrow>
      (createDocuments sv (chunkSize sv env) (chunkOverlap sv env) rawText w1 =
         (Ended WatchdogExpired, w2) \<longrightarrow>
         TimerFired Watchdog \<in> set (snd (fst (launcher url env sv w)))) \<and>
      (createDocuments sv (chunkSize sv env) (chunkOverlap sv env) rawText w1 =
         (Settled (Inl e), w2) \<longrightarrow>
         ClearTimeout Watchdog \<in> set (snd (fst (launcher url env sv w)))) \<and>
      (createDocuments sv (chunkSize sv env) (chunkOverlap sv env) rawText w1 =
         (Settled (Inr docs), w2) \<longrightarrow>
         (new_Pool sv (pool_config env) w2 = (Inl e, w3) \<longrightarrow>
            ClearTimeout Watchdog \<in> set (snd (fst (launcher url env sv w)))) \<and>
         (new_Pool sv (pool_config env) w2 = (Inr (), w3) \<longrightarrow>
            (pool_query sv (lit ''SELECT 1'') w3 = (Ended WatchdogExpired, w4) \<longrightarrow>
               TimerFired Watchdog \<in> set (snd (fst (launcher url env sv w)))) \<and>
            (pool_query sv (lit ''SELECT 1'') w3 = (Settled (Inl e), w4) \<longrightarrow>
               (pool_end sv w4 = (Ended WatchdogExpired, w8) \<longrightarrow>
                  TimerFired Watchdog \<in> set (snd (fst (launcher url env sv w)))) \<and>
               (pool_end sv w4 = (Settled c, w8) \<longrightarrow>
                  ClearTimeout Watchdog \<in> set (snd (fst (launcher url env sv w))))) \<and>
            (pool_query sv (lit ''SELECT 1'') w3 = (Settled (Inr ()), w4) \<longrightarrow>
               (initialize sv (tableName env) w4 = (Ended WatchdogExpired, w5) \<longrightarrow>
                  TimerFired Watchdog \<in> set (snd (fst (launcher url env sv w)))) \<and>
               (initialize sv (tableName env) w4 = (Settled (Inl e), w5) \<longrightarrow>
                  (pool_end sv w5 = (Ended WatchdogExpired, w8) \<longrightarrow>
                     TimerFired Watchdog \<in> set (snd (fst (launcher url env sv w)))) \<and>
                  (pool_end sv w5 = (Settled c, w8) \<longrightarrow>
                     ClearTimeout Watchdog \<in> set (snd (fst (launcher url env sv w))))) \<and>
               (initialize sv (tableName env) w4 = (Settled (Inr ()), w5) \<longrightarrow>
                with_metadata sv docs w5 = (stored, w6) \<longrightarrow>
                  (addDocuments sv stored w6 = (Ended WatchdogExpired, w7) \<longrightarrow>
                     TimerFired Watchdog \<in> set (snd (fst (launcher url env sv w)))) \<and>
                  (addDocuments sv stored w6 = (Settled r, w7) \<longrightarrow>
                     (pool_end sv w7 = (Ended WatchdogExpired, w8) \<longrightarrow>
                        TimerFired Watchdog \<in> set (snd (fst (launcher url env sv w)))) \<and>
                     (pool_end sv w7 = (Settled c, w8) \<longrightarrow>
                        ClearTimeout Watchdog \<in> set (snd (fst (launcher url env sv w))))))))))"
  (is "?first \<and> ?fired \<and> ?cleared \<and> ?paths")
proof -
  from run_endings [of url env sv w] have a: ?first and b: ?fired and c: ?cleared
    by blast+
  have d: ?paths
    by (cases r; cases "idle sv w8")
      (simp_all add: launcher_def embedAndStore_def store_documents_def split: option.split)
  show ?thesis
    by (rule conjI [OF a conjI [OF b conjI [OF c d]]])
qed

theorem watchdog_exits_with_status_zero_witness:
  "addDocuments (scripted_run store_fails_close_hangs)
     [\<lparr>pageContent = lit ''Hello world.'',
        metadata = \<lparr>source = lit ''truora-blog'', uuid = lit ''0''\<rparr>\<rparr>] 1 = (Settled (Inl (Thrown ''ECONNRESET'')), 1) \<and>
   pool_end (scripted_run store_fails_close_hangs) 1 = (Ended WatchdogExpired, 1) \<and>
   TimerFired Watchdog \<in> set (snd (fst (main full_env (scripted_run store_fails_close_hangs) 0))) \<and>
   fst (fst (main full_env (scripted_run store_fails_close_hangs) 0)) = 0 \<and>
   ClearTimeout Watchdog \<notin> set (snd (fst (main full_env (scripted_run store_fails_close_hangs) 0))) \<and>
   addDocuments (scripted_run all_ok)
     [\<lparr>pageContent = lit ''Hello world.'',
        metadata = \<lparr>source = lit ''truora-blog'', uuid = lit ''0''\<rparr>\<rparr>] 1 = (Settled (Inr ()), 1) \<and>
   pool_end (scripted_run all_ok) 1 = (Settled (Inr ()), 1) \<and>
   ClearTimeout Watchdog \<in> set (snd (fst (main bare_env (scripted_run all_ok) 0))) \<and>
   TimerFired Watchdog \<notin> set (snd (fst (main bare_env (scripted_run all_ok) 0)))"
  using
    watchdog_exits_with_status_zero [where sv = "scripted_run store_fails_close_hangs"
      and url = "full_env ''URL_REMOTE_TEXT''"
      and env = full_env
      and w = 0
      and ?w1.0 = 0
      and e = "Thrown ''ECONNRESET''"
      and rawText = "lit ''Hello world. This is a test.''"
      and ?w2.0 = 0
      and docs = "[\<lparr>pageContent = lit ''Hello world.''\<rparr>]"
      and ?w3.0 = 0
      and ?w4.0 = 0
      and ?w8.0 = 1
      and c = "Inr ()"
      and ?w5.0 = 0
      and stored = "[\<lparr>pageContent = lit ''Hello world.'',
        metadata = \<lparr>source = lit ''truora-blog'', uuid = lit ''0''\<rparr>\<rparr>]"
      and ?w6.0 = 1
      and ?w7.0 = 1
      and r = "Inl (Thrown ''ECONNRESET'')"]
    watchdog_exits_with_status_zero [where sv = "scripted_run all_ok"
      and url = "bare_env ''URL_REMOTE_TEXT''"
      and env = bare_env
      and w = 0
      and ?w1.0 = 0
      and e = "Thrown ''ECONNRESET''"
      and rawText = "lit ''Hello world. This is a test.''"
      and ?w2.0 = 0
      and docs = "[\<lparr>pageContent = lit ''Hello world.''\<rparr>]"
      and ?w3.0 = 0
      and ?w4.0 = 0
      and ?w8.0 = 1
      and c = "Inr ()"
      and ?w5.0 = 0
      and stored = "[\<lparr>pageContent = lit ''Hello world.'',
        metadata = \<lparr>source = lit ''truora-blog'', uuid = lit ''0''\<rparr>\<rparr>]"
      and ?w6.0 = 1
      and ?w7.0 = 1
      and r = "Inr ()"]
  unfolding main_def
  by (simp only: store_fails_close_hangs_calls all_ok_calls simp_thms)

text \<open>
  C3 as stated fails: when the download never settles, the safety timer ends the
  process with exit status 0, not with a non-zero status.
\<close>

theorem hung_fetch_exits_with_status_zero:
  "fst (fst (main full_env (scripted_run fetch_hangs) 0)) = 0 \<and>
   snd (fst (main full_env (scripted_run fetch_hangs) 0)) =
     [SetTimeout Watchdog 30000,
      Get (Some (lit ''https://example.com/your_text_source.txt'')),
      TimerFired Watchdog, Exit 0]"
  by (simp add: run_fetch_hangs)

text \<open>
  C4, as amended. The pool is not acquired at the start of the run but inside
  \<open>embedAndStore\<close>, once the download and the splitting have succeeded and the
  constructor has returned; its first use is the liveness query \<open>SELECT 1\<close>. No run
  releases it more than once, and none releases a pool it has not acquired. A run whose
  download or splitting fails or is cut short, or whose constructor throws, acquires no
  pool and releases none. When the process ends (the safety timer, \<open>SIGINT\<close> or an
  unhandled rejection) while the liveness query, the initialisation or the insertion is
  awaited, the pool is left unreleased. When these calls settle, whichever of them
  failed, \<open>pool.end()\<close> is called exactly once, whatever it does.
\<close>

theorem pool_is_released_at_most_once:
  "count_list (snd (fst (launcher url env sv w))) PoolEnd \<le> 1 \<and>
   (PoolEnd \<in> set (snd (fst (launcher url env sv w))) \<longrightarrow>
      PoolCreated (pool_config env) \<in> set (snd (fst (launcher url env sv w)))) \<and>
   (PoolCreated cfg \<in> set (snd (fst (launcher url env sv w))) \<longrightarrow>
      cfg = pool_config env \<and>
      (\<exists>rawText. take 5 (snd (fst (launcher url env sv w))) =
         [SetTimeout Watchdog 30000, Get url,
          CreateDocuments (chunkSize sv env) (chunkOverlap sv env) rawText,
          PoolCreated cfg, PoolQuery (lit ''SELECT 1'')])) \<and>
   (axios_get sv url w = (Settled (Inr rawText), w1) \<longrightarrow>
    createDocuments sv (chunkSize sv env) (chunkOverlap sv env) rawText w1 =
      (Settled (Inr docs), w2) \<longrightarrow>
    new_Pool sv (pool_config env) w2 = (Inr (), w3) \<longrightarrow>
      take 5 (snd (fst (launcher url env sv w))) =
        [SetTimeout Watchdog 30000, Get url,
         CreateDocuments (chunkSize sv env) (chunkOverlap sv env) rawText,
         PoolCreated (pool_config env), PoolQuery (lit ''SELECT 1'')]) \<and>
   (axios_get sv url w = (Ended x, w1) \<or> axios_get sv url w = (Settled (Inl e), w1) \<longrightarrow>
      PoolCreated cfg \<notin> set (snd (fst (launcher url env sv w))) \<and>
      PoolEnd \<notin> set (snd (fst (launcher url env sv w)))) \<and>
   (axios_get sv url w = (Settled (Inr rawText), w1) \<longrightarrow>
      (createDocuments sv (chunkSize sv env) (chunkOverlap sv env) rawText w1 = (Ended x, w2) \<or>
       createDocuments sv (chunkSize sv env) (chunkOverlap sv env) rawText w1 =
         (Settled (Inl e), w2) \<longrightarrow>
         PoolCreated cfg \<notin> set (snd (fst (launcher url env sv w))) \<and>
         PoolEnd \<notin> set (snd (fst (launcher url env sv w)))) \<and>
      (createDocuments sv (chunkSize sv env) (chunkOverlap sv env) rawText w1 =
         (Settled (Inr docs), w2) \<longrightarrow>
         (new_Pool sv (pool_config env) w2 = (Inl e, w3) \<longrightarrow>
            PoolCreated cfg \<notin> set (snd (fst (launcher url env sv w))) \<and>
            PoolEnd \<notin> set (snd (fst (launcher url env sv w)))) \<and>
         (new_Pool sv (pool_config env) w2 = (Inr (), w3) \<longrightarrow>
            (pool_query sv (lit ''SELECT 1'') w3 = (Ended x, w4) \<longrightarrow>
               PoolEnd \<notin> set (snd (fst (launcher url env sv w)))) \<and>
            (pool_query sv (lit ''SELECT 1'') w3 = (Settled (Inl e), w4) \<longrightarrow>
             pool_end sv w4 = (c, w8) \<longrightarrow>
               count_list (snd (fst (launcher url env sv w))) PoolEnd = 1) \<and>
            (pool_query sv (lit ''SELECT 1'') w3 = (Settled (Inr ()), w4) \<longrightarrow>
               (initialize sv (tableName env) w4 = (Ended x, w5) \<longrightarrow>
                  PoolEnd \<notin> set (snd (fst (launcher url env sv w)))) \<and>
               (initialize sv (tableName env) w4 = (Settled (Inl e), w5) \<longrightarrow>
                pool_end sv w5 = (c, w8) \<longrightarrow>
                  count_list (snd (fst (launcher url env sv w))) PoolEnd = 1) \<and>
               (initialize sv (tableName env) w4 = (Settled (Inr ()), w5) \<longrightarrow>
                with_metadata sv docs w5 = (stored, w6) \<longrightarrow>
                  (addDocuments sv stored w6 = (Ended x, w7) \<longrightarrow>
                     PoolEnd \<notin> set (snd (fst (launcher url env sv w)))) \<and>
                  (addDocuments sv stored w6 = (Settled r, w7) \<longrightarrow>
                   pool_end sv w7 = (c, w8) \<longrightarrow>
                     count_list (snd (fst (launcher url env sv w))) PoolEnd = 1))))))"
  (is "?once \<and> ?owned \<and> ?first_use \<and> ?acquired \<and> ?paths")
proof -
  from pool_in_run [of url env sv w cfg] have a: ?once and b: ?owned and c: ?first_use
    by blast+
  from pool_acquired [of sv url w rawText w1 env docs w2 w3] have d: ?acquired
    by blast
  have e: ?paths
    by (cases c; cases r; cases "idle sv w8")
      (simp_all add: launcher_def embedAndStore_def store_documents_def split: option.split)
  show ?thesis
    by (rule conjI [OF a conjI [OF b conjI [OF c conjI [OF d e]]]])
qed

theorem pool_is_released_at_most_once_witness:
  "new_Pool (scripted_run all_ok) (pool_config bare_env) 0 = (Inr (), 0) \<and>
   addDocuments (scripted_run all_ok)
     [\<lparr>pageContent = lit ''Hello world.'',
        metadata = \<lparr>source = lit ''truora-blog'', uuid = lit ''0''\<rparr>\<rparr>] 1 = (Settled (Inr ()), 1) \<and>
   pool_end (scripted_run all_ok) 1 = (Settled (Inr ()), 1) \<and>
   count_list (snd (fst (main bare_env (scripted_run all_ok) 0))) PoolEnd = 1 \<and>
   take 5 (snd (fst (main bare_env (scripted_run all_ok) 0))) =
     [SetTimeout Watchdog 30000, Get (bare_env ''URL_REMOTE_TEXT''),
      CreateDocuments (Finite 1000) (Finite 100) (lit ''Hello world. This is a test.''),
      PoolCreated (pool_config bare_env), PoolQuery (lit ''SELECT 1'')] \<and>
   addDocuments (scripted_run interrupted_while_storing)
     [\<lparr>pageContent = lit ''Hello world.'',
        metadata = \<lparr>source = lit ''truora-blog'', uuid = lit ''0''\<rparr>\<rparr>] 1 = (Ended (Signal Sigint), 1) \<and>
   PoolEnd \<notin> set (snd (fst (main full_env (scripted_run interrupted_while_storing) 0)))"
  using
    pool_is_released_at_most_once [where sv = "scripted_run all_ok"
      and url = "bare_env ''URL_REMOTE_TEXT''"
      and env = bare_env
      and w = 0
      and cfg = "pool_config bare_env"
      and x = WatchdogExpired
      and ?w1.0 = 0
      and e = "Thrown ''ECONNRESET''"
      and rawText = "lit ''Hello world. This is a test.''"
      and ?w2.0 = 0
      and docs = "[\<lparr>pageContent = lit ''Hello world.''\<rparr>]"
      and ?w3.0 = 0
      and ?w4.0 = 0
      and ?w8.0 = 1
      and c = "Settled (Inr ())"
      and ?w5.0 = 0
      and stored = "[\<lparr>pageContent = lit ''Hello world.'',
        metadata = \<lparr>source = lit ''truora-blog'', uuid = lit ''0''\<rparr>\<rparr>]"
      and ?w6.0 = 1
      and ?w7.0 = 1
      and r = "Inr ()"]
    pool_is_released_at_most_once [where sv = "scripted_run interrupted_while_storing"
      and url = "full_env ''URL_REMOTE_TEXT''"
      and env = full_env
      and w = 0
      and cfg = "pool_config full_env"
      and x = "Signal Sigint"
      and ?w1.0 = 0
      and e = "Thrown ''ECONNRESET''"
      and rawText = "lit ''Hello world. This is a test.''"
      and ?w2.0 = 0
      and docs = "[\<lparr>pageContent = lit ''Hello world.''\<rparr>]"
      and ?w3.0 = 0
      and ?w4.0 = 0
      and ?w8.0 = 1
      and c = "Settled (Inr ())"
      and ?w5.0 = 0
      and stored = "[\<lparr>pageContent = lit ''Hello world.'',
        metadata = \<lparr>source = lit ''truora-blog'', uuid = lit ''0''\<rparr>\<rparr>]"
      and ?w6.0 = 1
      and ?w7.0 = 1
      and r = "Inr ()"]
  unfolding main_def
  by (simp only: all_ok_calls interrupted_while_storing_calls config_values(6,7) simp_thms)

text \<open>
  C4 as stated fails: when the download fails, the run ends with exit status 1 without
  having acquired the pool, and \<open>pool.end()\<close> is called zero times, not once.
\<close>

theorem failed_fetch_acquires_no_pool:
  "count_list (snd (fst (main full_env (scripted_run fetch_fails) 0))) PoolEnd = 0 \<and>
   PoolCreated (pool_config full_env) \<notin> set (snd (fst (main full_env (scripted_run fetch_fails) 0))) \<and>
   fst (fst (main full_env (scripted_run fetch_fails) 0)) = 1"
  by (simp add: run_fetch_fails)

text \<open>
  C5, as amended. The run does not check its configuration before it starts, and a
  missing option does not stop it. Whatever the environment holds, the first thing the
  run does after setting the safety timer is to request the source: what
  \<open>URL_REMOTE_TEXT\<close> holds, absent or not, in the English edition, and a URL written in the
  code in the Spanish edition, which otherwise runs as the English edition does with
  that URL set. With the text downloaded, it is split with \<open>CHUNK_SIZE\<close> and
  \<open>CHUNK_OVERLAP\<close>, or with 1000 and 100 when these are absent or not numbers; with
  the text split, the pool is constructed with the five \<open>PG\<close> variables as they are,
  absent or not; with the liveness query answered, the store is initialised on the
  table \<open>TABLE_NAME\<close>, or \<open>documentos_rag\<close> when that is absent or empty. The script
  reads no other variable: changing one, the credential of the embeddings client
  included, changes nothing of the run but what the collaborators make of it.
\<close>

theorem configuration_is_not_validated:
  "take 2 (snd (fst (main env sv w))) =
     [SetTimeout Watchdog 30000, Get (env ''URL_REMOTE_TEXT'')] \<and>
   take 2 (snd (fst (main_es env sv w))) = [SetTimeout Watchdog 30000, Get (Some truora_blog)] \<and>
   main_es env sv w = main (env(''URL_REMOTE_TEXT'' \<mapsto> truora_blog)) sv w \<and>
   (env ''CHUNK_SIZE'' = None \<longrightarrow> chunkSize sv env = Finite 1000) \<and>
   (env ''CHUNK_SIZE'' = Some s \<longrightarrow> parse_number sv s = NaN \<longrightarrow> chunkSize sv env = Finite 1000) \<and>
   (env ''CHUNK_OVERLAP'' = None \<longrightarrow> chunkOverlap sv env = Finite 100) \<and>
   (env ''CHUNK_OVERLAP'' = Some s \<longrightarrow> parse_number sv s = NaN \<longrightarrow>
      chunkOverlap sv env = Finite 100) \<and>
   (env ''TABLE_NAME'' = None \<or> env ''TABLE_NAME'' = Some [] \<longrightarrow>
      tableName env = lit ''documentos_rag'') \<and>
   (k \<notin> {''URL_REMOTE_TEXT'', ''CHUNK_SIZE'', ''CHUNK_OVERLAP'', ''PGHOST'', ''PGPORT'',
      ''PGUSER'', ''PGPASSWORD'', ''PGDATABASE'', ''TABLE_NAME''} \<longrightarrow>
      main (env(k := v)) sv w = main env sv w) \<and>
   (axios_get sv (env ''URL_REMOTE_TEXT'') w = (Settled (Inr rawText), w1) \<longrightarrow>
      take 3 (snd (fst (main env sv w))) =
        [SetTimeout Watchdog 30000, Get (env ''URL_REMOTE_TEXT''),
         CreateDocuments (chunkSize sv env) (chunkOverlap sv env) rawText] \<and>
      (createDocuments sv (chunkSize sv env) (chunkOverlap sv env) rawText w1 =
         (Settled (Inr docs), w2) \<longrightarrow>
       new_Pool sv \<lparr>host = env ''PGHOST'', port = env ''PGPORT'', user = env ''PGUSER'',
         password = env ''PGPASSWORD'', database = env ''PGDATABASE''\<rparr> w2 = (Inr (), w3) \<longrightarrow>
         take 5 (snd (fst (main env sv w))) =
           [SetTimeout Watchdog 30000, Get (env ''URL_REMOTE_TEXT''),
            CreateDocuments (chunkSize sv env) (chunkOverlap sv env) rawText,
            PoolCreated \<lparr>host = env ''PGHOST'', port = env ''PGPORT'', user = env ''PGUSER'',
              password = env ''PGPASSWORD'', database = env ''PGDATABASE''\<rparr>,
            PoolQuery (lit ''SELECT 1'')] \<and>
         (pool_query sv (lit ''SELECT 1'') w3 = (Settled (Inr ()), w4) \<longrightarrow>
            take 6 (snd (fst (main env sv w))) =
              [SetTimeout Watchdog 30000, Get (env ''URL_REMOTE_TEXT''),
               CreateDocuments (chunkSize sv env) (chunkOverlap sv env) rawText,
               PoolCreated \<lparr>host = env ''PGHOST'', port = env ''PGPORT'', user = env ''PGUSER'',
                 password = env ''PGPASSWORD'', database = env ''PGDATABASE''\<rparr>,
               PoolQuery (lit ''SELECT 1''), Initialize (tableName env)])))"
  (is "?source \<and> ?source_es \<and> ?editions \<and> ?size \<and> ?size_nan \<and> ?overlap \<and> ?overlap_nan \<and>
       ?table \<and> ?unread \<and> ?stages")
proof -
  have a: ?source and b: ?source_es
    by (simp_all add: main_def main_es_def source_requested)
  have c: ?editions
    using unread_variable [of "''URL_REMOTE_TEXT''" "Some truora_blog" env "Some truora_blog" sv w]
    by (simp add: main_def main_es_def)
  have d: ?size and e: ?size_nan and f: ?overlap and g: ?overlap_nan and h: ?table
    by (auto simp: chunkSize_def chunkOverlap_def tableName_def Number_def string_or_def)
  have i: ?unread
    using unread_variable [of k "env ''URL_REMOTE_TEXT''" env v sv w]
    by (simp add: main_def)
  have j: ?stages
    unfolding main_def pool_config_def [symmetric]
    using chunks_requested [of sv "env ''URL_REMOTE_TEXT''" w rawText w1 env]
      pool_acquired [of sv "env ''URL_REMOTE_TEXT''" w rawText w1 env docs w2 w3]
      table_initialized [of sv "env ''URL_REMOTE_TEXT''" w rawText w1 env docs w2 w3 w4]
    by blast
  show ?thesis
    by (rule conjI [OF a conjI [OF b conjI [OF c conjI [OF d conjI [OF e conjI [OF f
          conjI [OF g conjI [OF h conjI [OF i j]]]]]]]]])
qed

theorem configuration_is_not_validated_witness:
  "bare_env ''CHUNK_SIZE'' = None \<and> bare_env ''CHUNK_OVERLAP'' = None \<and>
   bare_env ''TABLE_NAME'' = None \<and>
   take 6 (snd (fst (main bare_env (scripted_run all_ok) 0))) =
     [SetTimeout Watchdog 30000, Get (bare_env ''URL_REMOTE_TEXT''),
      CreateDocuments (Finite 1000) (Finite 100) (lit ''Hello world. This is a test.''),
      PoolCreated \<lparr>host = bare_env ''PGHOST'', port = bare_env ''PGPORT'',
        user = bare_env ''PGUSER'', password = bare_env ''PGPASSWORD'',
        database = bare_env ''PGDATABASE''\<rparr>,
      PoolQuery (lit ''SELECT 1''), Initialize (lit ''documentos_rag'')] \<and>
   main (bare_env(''OPENAI_API_KEY'' := Some (lit ''sk-test''))) (scripted_run all_ok) 0 =
     main bare_env (scripted_run all_ok) 0"
proof -
  have k: "''OPENAI_API_KEY'' \<notin> {''URL_REMOTE_TEXT'', ''CHUNK_SIZE'', ''CHUNK_OVERLAP'',
      ''PGHOST'', ''PGPORT'', ''PGUSER'', ''PGPASSWORD'', ''PGDATABASE'', ''TABLE_NAME''}"
    by simp
  from
    configuration_is_not_validated [where sv = "scripted_run all_ok"
      and env = bare_env
      and w = 0
      and k = "''OPENAI_API_KEY''"
      and v = "Some (lit ''sk-test'')"
      and s = "lit ''abc''"
      and ?w1.0 = 0
      and rawText = "lit ''Hello world. This is a test.''"
      and ?w2.0 = 0
      and docs = "[\<lparr>pageContent = lit ''Hello world.''\<rparr>]"
      and ?w3.0 = 0
      and ?w4.0 = 0]
  show ?thesis
    by (simp only: all_ok_calls config_values(2-4) k simp_thms)
qed

text \<open>
  C5 as stated fails: without \<open>TABLE_NAME\<close>, \<open>CHUNK_SIZE\<close> and \<open>CHUNK_OVERLAP\<close> the run
  goes through every stage with the defaults and exits with status 0; and with nothing
  configured at all the download is still attempted, the failure being the download's.
\<close>

theorem missing_options_do_not_stop_run:
  "bare_env ''TABLE_NAME'' = None \<and> bare_env ''CHUNK_SIZE'' = None \<and>
   bare_env ''CHUNK_OVERLAP'' = None \<and>
   fst (fst (main bare_env (scripted_run all_ok) 0)) = 0 \<and>
   snd (fst (main bare_env (scripted_run all_ok) 0)) =
     [SetTimeout Watchdog 30000,
      Get (Some (lit ''https://example.com/your_text_source.txt'')),
      CreateDocuments (Finite 1000) (Finite 100) (lit ''Hello world. This is a test.''),
      PoolCreated (pool_config bare_env), PoolQuery (lit ''SELECT 1''),
      Initialize (lit ''documentos_rag''),
      AddDocuments [\<lparr>pageContent = lit ''Hello world.'',
        metadata = \<lparr>source = lit ''truora-blog'', uuid = lit ''0''\<rparr>\<rparr>],
      PoolEnd, ClearTimeout Watchdog, SetTimeout ExitDelay 500, TimerFired ExitDelay,
      Exit 0] \<and>
   snd (fst (main Map.empty (scripted_run fetch_fails) 0)) =
     [SetTimeout Watchdog 30000, Get None, MainErrorLogged (Thrown ''ENOTFOUND''),
      ClearTimeout Watchdog, Exit 1]"
  by (simp add: run_all_ok run_nothing_configured config_values)




end
